theory Spec2Isabelle
  imports Complex_Main "HOL-Library.Sublist" "HOL-Library.AList"
begin

section \<open>Data model\<close>

text \<open>
  The chat backend (\<^verbatim>\<open>apps/backend/src/chat/chat.service.ts\<close>,
  \<^verbatim>\<open>apps/backend/src/ai/tools/tools.service.ts\<close>,
  \<^verbatim>\<open>apps/backend/src/ai/artifacts\<close>) is embedded with explicit state passing.
  JavaScript strings are lists of \<^typ>\<open>char\<close>; a \<^verbatim>\<open>Date\<close> is its number of
  milliseconds since the epoch, an \<^typ>\<open>int\<close>; \<^verbatim>\<open>undefined\<close> and \<^verbatim>\<open>null\<close>
  are \<^term>\<open>None\<close>. Fresh identifiers (\<^verbatim>\<open>generateUUID()\<close>) and the clock
  (\<^verbatim>\<open>new Date()\<close>) are inputs of the functions that read them.
\<close>

datatype visibility = Public | Private

text \<open>A message part: its \<^verbatim>\<open>type\<close> tag and its payload, kept as text.\<close>

datatype part = Part (part_type: string) (part_text: string)

text \<open>\<^verbatim>\<open>ChatMessage\<close>, the message of the user interface.\<close>

record chat_message =
  cm_id :: string
  cm_role :: string
  cm_parts :: "part list"
  cm_createdAt :: "int option"

text \<open>\<^verbatim>\<open>DBMessage\<close>, a persisted message (its \<^verbatim>\<open>attachments\<close> are always written empty).\<close>

record db_message =
  m_id :: string
  m_chatId :: string
  m_role :: string
  m_parts :: "part list"
  m_createdAt :: int

record chat =
  c_id :: string
  c_userId :: string
  c_title :: string
  c_visibility :: visibility

text \<open>The kinds the \<^verbatim>\<open>createDocument\<close> schema enumerates: \<^verbatim>\<open>z.enum(["text", "code", "image", "sheet"])\<close>.\<close>

datatype kind = Text | Code | Image | Sheet

record document =
  doc_id :: string
  doc_title :: string
  doc_content :: "string option"
  doc_kind :: kind
  doc_userId :: string
  doc_createdAt :: int

text \<open>A suggestion as the tool builds it, and as it is persisted.\<close>

record suggestion =
  sg_id :: string
  sg_documentId :: string
  sg_originalText :: string
  sg_suggestedText :: string
  sg_description :: string
  sg_isResolved :: bool

record db_suggestion =
  ds_suggestion :: suggestion
  ds_userId :: string
  ds_createdAt :: int
  ds_documentCreatedAt :: int

text \<open>\<^verbatim>\<open>JwtPayload\<close>: the authenticated identity.\<close>

record jwt =
  u_id :: string
  u_type :: string

section \<open>The Store\<close>

text \<open>
  The package \<^verbatim>\<open>@repo/db\<close> is imported by the services and is not among the source
  files. The Store is a record of tables, each a list in insertion order.
\<close>

record store =
  chats :: "chat list"
  messages :: "db_message list"
  streams :: "(string \<times> string) list"
  documents :: "document list"
  suggestions :: "db_suggestion list"
  saveSuggestions_calls :: nat

text \<open>Modelled from the spec: \<^verbatim>\<open>getChatById\<close> of \<^verbatim>\<open>@repo/db\<close> ("get chat"): the chat
  with this id, if there is one.\<close>

definition getChatById :: "store \<Rightarrow> string \<Rightarrow> chat option" where
  "getChatById st cid = find (\<lambda>c. c_id c = cid) (chats st)"

text \<open>Modelled from the spec: \<^verbatim>\<open>saveChat\<close> of \<^verbatim>\<open>@repo/db\<close> ("create chat").\<close>

definition saveChat :: "store \<Rightarrow> chat \<Rightarrow> store" where
  "saveChat st c = st\<lparr>chats := chats st @ [c]\<rparr>"

text \<open>Modelled from the spec: \<^verbatim>\<open>getMessagesByChatId\<close> of \<^verbatim>\<open>@repo/db\<close> ("get messages by
  chat"): the chat's messages in conversation (insertion) order.\<close>

definition getMessagesByChatId :: "store \<Rightarrow> string \<Rightarrow> db_message list" where
  "getMessagesByChatId st cid = filter (\<lambda>m. m_chatId m = cid) (messages st)"

text \<open>Modelled from the spec: \<^verbatim>\<open>saveMessages\<close> of \<^verbatim>\<open>@repo/db\<close> ("save messages"): the
  batch is inserted after the messages already there.\<close>

definition saveMessages :: "store \<Rightarrow> db_message list \<Rightarrow> store" where
  "saveMessages st ms = st\<lparr>messages := messages st @ ms\<rparr>"

text \<open>Modelled from the spec: \<^verbatim>\<open>updateMessage\<close> of \<^verbatim>\<open>@repo/db\<close> ("update messages by
  id", the controlled update in place): the parts of the message with this id are replaced,
  its position and its other fields are kept.\<close>

definition updateMessage :: "store \<Rightarrow> string \<Rightarrow> part list \<Rightarrow> store" where
  "updateMessage st mid ps =
     st\<lparr>messages := map (\<lambda>m. if m_id m = mid then m\<lparr>m_parts := ps\<rparr> else m) (messages st)\<rparr>"

text \<open>Modelled from the spec: \<^verbatim>\<open>createStreamId\<close> and \<^verbatim>\<open>getStreamIdsByChatId\<close> of
  \<^verbatim>\<open>@repo/db\<close> ("record and list stream identifiers by chat"): the stream records are
  append-only, listed oldest first.\<close>

definition createStreamId :: "store \<Rightarrow> string \<Rightarrow> string \<Rightarrow> store" where
  "createStreamId st streamId chatId = st\<lparr>streams := streams st @ [(streamId, chatId)]\<rparr>"

definition getStreamIdsByChatId :: "store \<Rightarrow> string \<Rightarrow> string list" where
  "getStreamIdsByChatId st chatId = map fst (filter (\<lambda>r. snd r = chatId) (streams st))"

text \<open>Modelled from the spec: \<^verbatim>\<open>getMessageCountByUserId\<close> of \<^verbatim>\<open>@repo/db\<close> ("count
  messages by user within a time window (for quota)"): the user's messages, in the chats the
  user owns, persisted within the last \<open>differenceInHours\<close> hours before \<open>now\<close>.\<close>

definition getMessageCountByUserId :: "store \<Rightarrow> string \<Rightarrow> int \<Rightarrow> int \<Rightarrow> nat" where
  "getMessageCountByUserId st uid differenceInHours now =
     length (filter (\<lambda>m. m_role m = ''user''
                        \<and> now - differenceInHours * 3600000 \<le> m_createdAt m
                        \<and> (case getChatById st (m_chatId m) of
                             None \<Rightarrow> False
                           | Some c \<Rightarrow> c_userId c = uid))
               (messages st))"

text \<open>Modelled from the spec: \<^verbatim>\<open>getDocumentById\<close> and \<^verbatim>\<open>saveDocument\<close> of
  \<^verbatim>\<open>@repo/db\<close> ("save/get documents by id"): a save appends a version, a read returns the
  latest version.\<close>

definition getDocumentById :: "store \<Rightarrow> string \<Rightarrow> document option" where
  "getDocumentById st did = find (\<lambda>d. doc_id d = did) (rev (documents st))"

definition saveDocument :: "store \<Rightarrow> document \<Rightarrow> store" where
  "saveDocument st d = st\<lparr>documents := documents st @ [d]\<rparr>"


section \<open>Errors\<close>

text \<open>The \<^verbatim>\<open>ChatSDKError\<close> codes the chat service throws inside an \<^verbatim>\<open>HttpException\<close>.\<close>

datatype error = RateLimitChat | ForbiddenChat | NotFoundChat | NotFoundStream

section \<open>Creating a chat stream\<close>

text \<open>The request body of \<^verbatim>\<open>createChatStream\<close>; \<^verbatim>\<open>message\<close> and \<^verbatim>\<open>messages\<close> are
  both optional.\<close>

record dto =
  d_id :: string
  d_message :: "chat_message option"
  d_messages :: "chat_message list option"
  d_selectedChatModel :: string
  d_selectedVisibilityType :: visibility

text \<open>What the synchronous part of \<^verbatim>\<open>createChatStream\<close> hands to the stream callbacks
  \<^verbatim>\<open>execute\<close> and \<^verbatim>\<open>onFinish\<close>: the closure variables \<^verbatim>\<open>id\<close>,
  \<^verbatim>\<open>isToolApprovalFlow\<close>, \<^verbatim>\<open>uiMessages\<close>, \<^verbatim>\<open>streamId\<close>, and the message the title
  is generated from when \<^verbatim>\<open>titlePromise\<close> is set. An element \<^term>\<open>None\<close> of
  \<open>uiMessages\<close> is the \<^verbatim>\<open>undefined\<close> that \<^verbatim>\<open>message as ChatMessage\<close>
  appends when the request has no \<^verbatim>\<open>message\<close>.\<close>

record stream_setup =
  ss_id :: string
  ss_isToolApprovalFlow :: bool
  ss_uiMessages :: "chat_message option list"
  ss_streamId :: string
  ss_titleFrom :: "chat_message option"
  ss_selectedChatModel :: string

text \<open>\<^verbatim>\<open>formatISO\<close> of the library \<^verbatim>\<open>date-fns\<close> writes a date to the second. The
  metadata \<^verbatim>\<open>createdAt\<close> of a \<^verbatim>\<open>ChatMessage\<close> is kept as the instant that text
  denotes: the date without its milliseconds.\<close>

definition formatISO :: "int \<Rightarrow> int" where
  "formatISO date = date - date mod 1000"

definition convertToUIMessages :: "db_message list \<Rightarrow> chat_message list" where
  "convertToUIMessages ms =
     map (\<lambda>m. \<lparr>cm_id = m_id m, cm_role = m_role m, cm_parts = m_parts m,
               cm_createdAt = Some (formatISO (m_createdAt m))\<rparr>) ms"

definition getTextFromMessage :: "chat_message \<Rightarrow> string" where
  "getTextFromMessage m =
     concat (map part_text (filter (\<lambda>p. part_type p = ''text'') (cm_parts m)))"

text \<open>\<^verbatim>\<open>message?.role === "user"\<close>.\<close>

definition isUserMessage :: "chat_message option \<Rightarrow> bool" where
  "isUserMessage message = (case message of None \<Rightarrow> False | Some m \<Rightarrow> cm_role m = ''user'')"

text \<open>
  \<^verbatim>\<open>createChatStream\<close> up to the construction of the stream (lines 117 to 181). The
  table \<^verbatim>\<open>entitlementsByUserType\<close> is not among the source files: its column
  \<open>maxMessagesPerDay\<close> is a parameter. The result is the Store after the call and
  either the error thrown or the set-up of the stream.
\<close>

definition createChatStream ::
  "(string \<Rightarrow> nat) \<Rightarrow> store \<Rightarrow> dto \<Rightarrow> jwt \<Rightarrow> int \<Rightarrow> string \<Rightarrow> store \<times> (error + stream_setup)" where
  "createChatStream maxMessagesPerDay st d user now newStreamId =
    (let messageCount = getMessageCountByUserId st (u_id user) 24 now in
     if messageCount > maxMessagesPerDay (u_type user) then (st, Inl RateLimitChat)
     else
       let isToolApprovalFlow = (d_messages d \<noteq> None);
           chat = getChatById st (d_id d)
       in
       if (case chat of None \<Rightarrow> False | Some c \<Rightarrow> c_userId c \<noteq> u_id user)
       then (st, Inl ForbiddenChat)
       else
         let messagesFromDb =
               (if chat \<noteq> None \<and> \<not> isToolApprovalFlow then getMessagesByChatId st (d_id d) else []);
             newChat = (chat = None \<and> isUserMessage (d_message d));
             st1 = (if newChat
                    then saveChat st \<lparr>c_id = d_id d, c_userId = u_id user, c_title = ''New chat'',
                                      c_visibility = d_selectedVisibilityType d\<rparr>
                    else st);
             titleFrom = (if newChat then d_message d else None);
             uiMessages = (case d_messages d of
                             Some ms \<Rightarrow> map Some ms
                           | None \<Rightarrow> map Some (convertToUIMessages messagesFromDb) @ [d_message d]);
             st2 = (case d_message d of
                      None \<Rightarrow> st1
                    | Some m \<Rightarrow>
                        if cm_role m = ''user''
                        then saveMessages st1
                               [\<lparr>m_id = cm_id m, m_chatId = d_id d, m_role = ''user'',
                                 m_parts = cm_parts m, m_createdAt = now\<rparr>]
                        else st1);
             st3 = createStreamId st2 newStreamId (d_id d)
         in (st3, Inr \<lparr>ss_id = d_id d, ss_isToolApprovalFlow = isToolApprovalFlow,
                       ss_uiMessages = uiMessages, ss_streamId = newStreamId,
                       ss_titleFrom = titleFrom,
                       ss_selectedChatModel = d_selectedChatModel d\<rparr>))"

section \<open>The model call\<close>

text \<open>\<^verbatim>\<open>String.prototype.indexOf\<close> and \<^verbatim>\<open>String.prototype.includes\<close>: the first
  position at which the needle starts, if any.\<close>

fun indexOf :: "string \<Rightarrow> string \<Rightarrow> nat option" where
  "indexOf [] t = (if t = [] then Some 0 else None)"
| "indexOf (c # cs) t =
     (if prefix t (c # cs) then Some 0 else map_option Suc (indexOf cs t))"

definition includes_str :: "string \<Rightarrow> string \<Rightarrow> bool" where
  "includes_str s t = (indexOf s t \<noteq> None)"

definition isReasoningModel :: "string \<Rightarrow> bool" where
  "isReasoningModel selectedChatModel =
     (includes_str selectedChatModel ''reasoning'' \<or> includes_str selectedChatModel ''thinking'')"

text \<open>The options \<^verbatim>\<open>execute\<close> passes to \<^verbatim>\<open>streamText\<close> that depend on the model
  identifier (lines 200 to 232): \<^verbatim>\<open>experimental_activeTools\<close>,
  \<^verbatim>\<open>experimental_transform\<close> (\<^verbatim>\<open>undefined\<close> or \<^verbatim>\<open>smoothStream({ chunking })\<close>),
  \<^verbatim>\<open>providerOptions\<close> (\<^verbatim>\<open>undefined\<close> or the thinking budget), and the step limit
  \<^verbatim>\<open>stepCountIs(5)\<close>.\<close>

datatype transform = SmoothStream (chunking: string)

record streamText_options =
  experimental_activeTools :: "string list"
  experimental_transform :: "transform option"
  thinking_budgetTokens :: "nat option"
  stopWhen_stepCount :: nat

definition streamTextOptions :: "string \<Rightarrow> streamText_options" where
  "streamTextOptions selectedChatModel =
     \<lparr>experimental_activeTools =
        (if isReasoningModel selectedChatModel then []
         else [''getWeather'', ''createDocument'', ''updateDocument'', ''requestSuggestions'']),
      experimental_transform =
        (if isReasoningModel selectedChatModel then None else Some (SmoothStream ''word'')),
      thinking_budgetTokens =
        (if isReasoningModel selectedChatModel then Some 10000 else None),
      stopWhen_stepCount = 5\<rparr>"

section \<open>Persisting the finished messages\<close>

text \<open>One round of the loop of \<^verbatim>\<open>onFinish\<close> in the approval flow (lines 285 to 308):
  \<^verbatim>\<open>uiMessages.find((m) => m.id === finishedMsg.id)\<close> decides between
  \<^verbatim>\<open>updateMessage\<close> and \<^verbatim>\<open>saveMessages\<close>.\<close>

definition hasId :: "string \<Rightarrow> chat_message option \<Rightarrow> bool" where
  "hasId i m = (case m of None \<Rightarrow> False | Some m' \<Rightarrow> cm_id m' = i)"

definition toDbMessage :: "string \<Rightarrow> int \<Rightarrow> chat_message \<Rightarrow> db_message" where
  "toDbMessage chatId now m =
     \<lparr>m_id = cm_id m, m_chatId = chatId, m_role = cm_role m, m_parts = cm_parts m,
      m_createdAt = now\<rparr>"

definition persistFinished :: "stream_setup \<Rightarrow> int \<Rightarrow> store \<Rightarrow> chat_message \<Rightarrow> store" where
  "persistFinished ss now st finishedMsg =
     (case find (hasId (cm_id finishedMsg)) (ss_uiMessages ss) of
        Some existingMsg \<Rightarrow> updateMessage st (cm_id finishedMsg) (cm_parts finishedMsg)
      | None \<Rightarrow> saveMessages st [toDbMessage (ss_id ss) now finishedMsg])"

text \<open>Whether \<^verbatim>\<open>uiMessages.find\<close> finds a message with this id.\<close>

definition inTranscript :: "stream_setup \<Rightarrow> string \<Rightarrow> bool" where
  "inTranscript ss i = (\<exists>m \<in> set (ss_uiMessages ss). hasId i m)"

text \<open>\<^verbatim>\<open>onFinish\<close> (lines 271 to 332): the finished messages are what the stream library
  hands to the callback.\<close>

definition onFinish :: "stream_setup \<Rightarrow> int \<Rightarrow> store \<Rightarrow> chat_message list \<Rightarrow> store" where
  "onFinish ss now st finishedMessages =
     (if ss_isToolApprovalFlow ss
      then foldl (persistFinished ss now) st finishedMessages
      else if length finishedMessages > 0
      then saveMessages st (map (toDbMessage (ss_id ss) now) finishedMessages)
      else st)"

section \<open>Reading a chat\<close>

definition getChatWithMessages ::
  "store \<Rightarrow> string \<Rightarrow> string \<Rightarrow> error + (chat \<times> chat_message list)" where
  "getChatWithMessages st chatId userId =
     (case getChatById st chatId of
        None \<Rightarrow> Inl NotFoundChat
      | Some chat \<Rightarrow>
          if c_visibility chat = Private \<and> c_userId chat \<noteq> userId then Inl ForbiddenChat
          else Inr (chat, convertToUIMessages (getMessagesByChatId st chatId)))"

section \<open>Resuming a stream\<close>

text \<open>The chunks the services write to a UI message stream; each is written with
  \<^verbatim>\<open>transient: true\<close>. \<open>DataAppendMessage\<close> carries the message that
  \<^verbatim>\<open>JSON.stringify(mostRecentMessage)\<close> serialises.\<close>

datatype ui_chunk =
    DataKind kind
  | DataId string
  | DataTitle string
  | DataClear
  | DataFinish
  | DataCodeDelta string
  | DataContent string
  | DataSuggestion suggestion
  | DataAppendMessage db_message

text \<open>What \<^verbatim>\<open>streamContext.resumableStream(recentStreamId, ...)\<close> of the library
  \<^verbatim>\<open>resumable-stream\<close> resolves to: a stream that is still attachable, with the chunks
  it goes on to deliver; nothing, when the live feed has concluded; or a failure.\<close>

datatype resumed = Attached "string list" | Concluded | ResumeFailed

text \<open>The result of \<^verbatim>\<open>getResumableStream\<close>: \<^verbatim>\<open>null\<close>; an observable that forwards
  the chunks of the live feed and completes; or an observable that forwards the encoding, by
  the library's \<^verbatim>\<open>JsonToSseTransformStream\<close>, of a UI message stream holding exactly the
  listed chunks, and completes.\<close>

datatype resume_feed = Unavailable | Live "string list" | Feed "ui_chunk list"

text \<open>\<^verbatim>\<open>createUIMessageStream({ execute: () => {} })\<close>: nothing is written.\<close>

definition emptyDataStream :: "ui_chunk list" where
  "emptyDataStream = []"

text \<open>\<^verbatim>\<open>differenceInSeconds\<close> of the library \<^verbatim>\<open>date-fns\<close>: the difference of the two
  dates in milliseconds, divided by 1000 and truncated towards zero.\<close>

definition differenceInSeconds :: "int \<Rightarrow> int \<Rightarrow> int" where
  "differenceInSeconds laterDate earlierDate =
     (let diff = laterDate - earlierDate
      in if 0 \<le> diff then diff div 1000 else - ((- diff) div 1000))"

text \<open>\<^verbatim>\<open>getResumableStream\<close> (lines 509 to 692). \<open>streamContext\<close> is the field of
  the service, \<^term>\<open>None\<close> when the resumable-stream context could not be created;
  \<open>resumeRequestedAt\<close> is the clock. The errors are thrown before the \<^verbatim>\<open>try\<close>
  block; a failure inside it gives \<^verbatim>\<open>null\<close>.\<close>

definition getResumableStream ::
  "(string \<Rightarrow> resumed) option \<Rightarrow> store \<Rightarrow> string \<Rightarrow> string \<Rightarrow> int \<Rightarrow> error + resume_feed" where
  "getResumableStream streamContext st chatId userId resumeRequestedAt =
     (case streamContext of
        None \<Rightarrow> Inr Unavailable
      | Some resumableStream \<Rightarrow>
          (case getChatById st chatId of
             None \<Rightarrow> Inl NotFoundChat
           | Some chat \<Rightarrow>
               if c_visibility chat = Private \<and> c_userId chat \<noteq> userId then Inl ForbiddenChat
               else
                 let streamIds = getStreamIdsByChatId st chatId in
                 if streamIds = [] then Inl NotFoundStream
                 else
                   let recentStreamId = last streamIds in
                   if recentStreamId = [] then Inl NotFoundStream
                   else
                     (case resumableStream recentStreamId of
                        ResumeFailed \<Rightarrow> Inr Unavailable
                      | Attached chunks \<Rightarrow> Inr (Live (filter (\<lambda>v. v \<noteq> []) chunks))
                      | Concluded \<Rightarrow>
                          let msgs = getMessagesByChatId st chatId in
                          if msgs = [] \<or> m_role (last msgs) \<noteq> ''assistant''
                          then Inr (Feed emptyDataStream)
                          else
                            let mostRecentMessage = last msgs;
                                messageCreatedAt = m_createdAt mostRecentMessage
                            in
                            if differenceInSeconds resumeRequestedAt messageCreatedAt > 15
                            then Inr (Feed emptyDataStream)
                            else Inr (Feed [DataAppendMessage mostRecentMessage]))))"

section \<open>The document handlers\<close>

text \<open>A \<^verbatim>\<open>DocumentHandler\<close>: its kind and its two callbacks, which write chunks to the
  data stream and update the Store. The clock is their last argument.\<close>

record documentHandler =
  h_kind :: kind
  h_onCreateDocument :: "string \<Rightarrow> string \<Rightarrow> jwt \<Rightarrow> store \<Rightarrow> int \<Rightarrow> ui_chunk list \<times> store"
  h_onUpdateDocument :: "document \<Rightarrow> string \<Rightarrow> jwt \<Rightarrow> store \<Rightarrow> int \<Rightarrow> ui_chunk list \<times> store"

text \<open>The \<open>config\<close> of \<^verbatim>\<open>createDocumentHandler\<close>: the content generators, which
  return the chunks they write and the draft content. They call the language model, so they
  are parameters.\<close>

record generator =
  g_onCreateDocument :: "string \<Rightarrow> string \<Rightarrow> ui_chunk list \<times> string"
  g_onUpdateDocument :: "document \<Rightarrow> string \<Rightarrow> ui_chunk list \<times> string"

definition createDocumentHandler :: "kind \<Rightarrow> generator \<Rightarrow> documentHandler" where
  "createDocumentHandler k config =
     \<lparr>h_kind = k,
      h_onCreateDocument = (\<lambda>i title session st now.
         let (written, draftContent) = g_onCreateDocument config i title
         in (written,
             if u_id session \<noteq> []
             then saveDocument st \<lparr>doc_id = i, doc_title = title, doc_content = Some draftContent,
                                   doc_kind = k, doc_userId = u_id session, doc_createdAt = now\<rparr>
             else st)),
      h_onUpdateDocument = (\<lambda>doc description session st now.
         let (written, draftContent) = g_onUpdateDocument config doc description
         in (written,
             if u_id session \<noteq> []
             then saveDocument st \<lparr>doc_id = doc_id doc, doc_title = doc_title doc,
                                   doc_content = Some draftContent, doc_kind = k,
                                   doc_userId = u_id session, doc_createdAt = now\<rparr>
             else st))\<rparr>"

text \<open>The deltas of \<^verbatim>\<open>streamObject(...).fullStream\<close> in the code handler: an object
  delta with its \<^verbatim>\<open>code\<close> field, or a delta of another type.\<close>

datatype code_delta = ObjectDelta "string option" | OtherDelta

text \<open>The loop over \<^verbatim>\<open>fullStream\<close> in \<^verbatim>\<open>code.handler.ts\<close>: a truthy \<^verbatim>\<open>code\<close> is
  written as a \<^verbatim>\<open>data-codeDelta\<close> chunk and becomes the draft.\<close>

fun codeDeltas :: "code_delta list \<Rightarrow> string \<Rightarrow> ui_chunk list \<times> string" where
  "codeDeltas [] draftContent = ([], draftContent)"
| "codeDeltas (ObjectDelta (Some code) # ds) draftContent =
     (if code \<noteq> []
      then (let (written, draft) = codeDeltas ds code in (DataCodeDelta code # written, draft))
      else codeDeltas ds draftContent)"
| "codeDeltas (d # ds) draftContent = codeDeltas ds draftContent"

text \<open>\<^verbatim>\<open>createCodeDocumentHandler\<close>; the two parameters are the model's streams for a title
  and for an update.\<close>

definition createCodeDocumentHandler ::
  "(string \<Rightarrow> code_delta list) \<Rightarrow> (document \<Rightarrow> string \<Rightarrow> code_delta list) \<Rightarrow> documentHandler" where
  "createCodeDocumentHandler createStream updateStream =
     createDocumentHandler Code
       \<lparr>g_onCreateDocument = (\<lambda>i title. codeDeltas (createStream title) []),
        g_onUpdateDocument = (\<lambda>doc description. codeDeltas (updateStream doc description) [])\<rparr>"

text \<open>Modelled from the spec: \<^verbatim>\<open>createTextDocumentHandler\<close> and
  \<^verbatim>\<open>createSheetDocumentHandler\<close> (\<^verbatim>\<open>text.handler.ts\<close> and \<^verbatim>\<open>sheet.handler.ts\<close>
  are not among the source files): the handlers of the registry "keyed by a kind tag", built
  as the code handler is, from the text and the sheet generator.\<close>

definition createTextDocumentHandler :: "generator \<Rightarrow> documentHandler" where
  "createTextDocumentHandler config = createDocumentHandler Text config"

definition createSheetDocumentHandler :: "generator \<Rightarrow> documentHandler" where
  "createSheetDocumentHandler config = createDocumentHandler Sheet config"

text \<open>The external collaborators of the handlers (\<^verbatim>\<open>aiService\<close>): the generators of text
  and sheets and the model's two streams of code.\<close>

record aiService =
  ai_text :: generator
  ai_codeCreate :: "string \<Rightarrow> code_delta list"
  ai_codeUpdate :: "document \<Rightarrow> string \<Rightarrow> code_delta list"
  ai_sheet :: generator

text \<open>\<^verbatim>\<open>createDocumentHandlers\<close> of \<^verbatim>\<open>artifacts/index.ts\<close>: the registry, in this
  order.\<close>

definition createDocumentHandlers :: "aiService \<Rightarrow> documentHandler list" where
  "createDocumentHandlers ai =
     [createTextDocumentHandler (ai_text ai),
      createCodeDocumentHandler (ai_codeCreate ai) (ai_codeUpdate ai),
      createSheetDocumentHandler (ai_sheet ai)]"

section \<open>The tools\<close>

text \<open>What a tool's \<^verbatim>\<open>execute\<close> ends with: a returned payload or a thrown
  \<^verbatim>\<open>Error\<close> with its message.\<close>

datatype tool_payload =
    DocumentPayload string string kind string
  | SuggestionsPayload string string kind string
  | ErrorPayload string

datatype tool_result = Returned tool_payload | Threw string

fun kind_name :: "kind \<Rightarrow> string" where
  "kind_name Text = ''text''"
| "kind_name Code = ''code''"
| "kind_name Image = ''image''"
| "kind_name Sheet = ''sheet''"

text \<open>\<^verbatim>\<open>createDocument\<close>'s \<^verbatim>\<open>execute\<close> (lines 86 to 138): the chunks written to the data
  stream, the Store, and the result. \<open>i\<close> is the generated identifier.\<close>

definition createDocument ::
  "documentHandler list \<Rightarrow> jwt \<Rightarrow> store \<Rightarrow> int \<Rightarrow> string \<Rightarrow> string \<Rightarrow> kind
     \<Rightarrow> ui_chunk list \<times> store \<times> tool_result" where
  "createDocument documentHandlers session st now i title k =
     (let preliminary = [DataKind k, DataId i, DataTitle title, DataClear] in
      case find (\<lambda>handler. h_kind handler = k) documentHandlers of
        None \<Rightarrow> (preliminary, st, Threw (''No document handler found for kind: '' @ kind_name k))
      | Some documentHandler \<Rightarrow>
          let (written, st') = h_onCreateDocument documentHandler i title session st now
          in (preliminary @ written @ [DataFinish], st',
              Returned (DocumentPayload i title k
                ''A document was created and is now visible to the user.'')))"

text \<open>\<^verbatim>\<open>updateDocument\<close>'s \<^verbatim>\<open>execute\<close> (lines 154 to 196).\<close>

definition updateDocument ::
  "documentHandler list \<Rightarrow> jwt \<Rightarrow> store \<Rightarrow> int \<Rightarrow> string \<Rightarrow> string
     \<Rightarrow> ui_chunk list \<times> store \<times> tool_result" where
  "updateDocument documentHandlers session st now i description =
     (case getDocumentById st i of
        None \<Rightarrow> ([], st, Returned (ErrorPayload ''Document not found''))
      | Some doc \<Rightarrow>
          (case find (\<lambda>handler. h_kind handler = doc_kind doc) documentHandlers of
             None \<Rightarrow> ([DataClear], st,
                       Returned (ErrorPayload
                         (''No document handler found for kind: '' @ kind_name (doc_kind doc))))
           | Some documentHandler \<Rightarrow>
               let (written, st') = h_onUpdateDocument documentHandler doc description session st now
               in ([DataClear] @ written @ [DataFinish], st',
                   Returned (DocumentPayload i (doc_title doc) (doc_kind doc)
                     ''The document has been updated successfully.''))))"

text \<open>An element of a partial output of the model in \<^verbatim>\<open>requestSuggestions\<close>; a field may
  be missing while the element is incomplete.\<close>

record element =
  originalSentence :: "string option"
  suggestedSentence :: "string option"
  description :: "string option"

text \<open>JavaScript truthiness of an optional string.\<close>

definition truthy_str :: "string option \<Rightarrow> bool" where
  "truthy_str s = (case s of None \<Rightarrow> False | Some t \<Rightarrow> t \<noteq> [])"







text \<open>The elements that are new in each partial output, in order: those beyond the \<open>n\<close>
  elements already processed. For an output that grows by appending they are the elements of
  the largest array (\<open>newElements_growing\<close>).\<close>

fun newElements :: "nat \<Rightarrow> element list option list \<Rightarrow> element list" where
  "newElements n [] = []"
| "newElements n (None # ps) = newElements n ps"
| "newElements n (Some es # ps) = drop n es @ newElements (n + length (drop n es)) ps"



section \<open>The transport transform\<close>

text \<open>A parsed JSON value. An object is the list of its own properties in the order
  \<^verbatim>\<open>Object.values\<close> enumerates them, each key once.\<close>

datatype json =
    JNull
  | JBool bool
  | JNum rat
  | JStr string
  | JArr "json list"
  | JObj "(string \<times> json) list"

text \<open>Reading a property of a value other than \<^verbatim>\<open>null\<close>; \<^term>\<open>None\<close> is
  \<^verbatim>\<open>undefined\<close>. Only the names \<^verbatim>\<open>type\<close>, \<^verbatim>\<open>finishReason\<close> and
  \<^verbatim>\<open>unified\<close> are read, which no array, string, number or boolean has.\<close>

fun getProp :: "string \<Rightarrow> json \<Rightarrow> json option" where
  "getProp k (JObj ps) = map_of ps k"
| "getProp k v = None"

text \<open>JavaScript truthiness of a property that was read.\<close>

fun truthy :: "json option \<Rightarrow> bool" where
  "truthy None = False"
| "truthy (Some JNull) = False"
| "truthy (Some (JBool b)) = b"
| "truthy (Some (JNum n)) = (n \<noteq> 0)"
| "truthy (Some (JStr s)) = (s \<noteq> [])"
| "truthy (Some (JArr vs)) = True"
| "truthy (Some (JObj ps)) = True"

text \<open>\<^verbatim>\<open>typeof v === "object" && v !== null\<close>.\<close>

fun isObject :: "json \<Rightarrow> bool" where
  "isObject (JArr vs) = True"
| "isObject (JObj ps) = True"
| "isObject v = False"

text \<open>\<^verbatim>\<open>Object.values\<close> of an object or an array.\<close>

fun objectValues :: "json \<Rightarrow> json list" where
  "objectValues (JObj ps) = map snd ps"
| "objectValues (JArr vs) = vs"
| "objectValues v = []"

fun isString :: "json \<Rightarrow> bool" where
  "isString (JStr s) = True"
| "isString v = False"

text \<open>The assignment \<^verbatim>\<open>parsed.finishReason = v\<close>.\<close>

fun setFinishReason :: "json \<Rightarrow> json \<Rightarrow> json" where
  "setFinishReason (JObj ps) v = JObj (AList.update ''finishReason'' v ps)"
| "setFinishReason parsed v = parsed"

text \<open>The statements of \<^verbatim>\<open>extractAndTransformJson\<close> between \<^verbatim>\<open>JSON.parse\<close> and
  \<^verbatim>\<open>JSON.stringify\<close> (lines 436 to 449). \<^term>\<open>None\<close> is the \<^verbatim>\<open>TypeError\<close> of
  reading \<^verbatim>\<open>parsed.type\<close> when \<^verbatim>\<open>parsed\<close> is \<^verbatim>\<open>null\<close>.\<close>

definition transformFinishReason :: "json \<Rightarrow> json option" where
  "transformFinishReason parsed =
     (if parsed = JNull then None
      else if getProp ''type'' parsed = Some (JStr ''finish'') \<and> truthy (getProp ''finishReason'' parsed)
      then
        (let finishReason = the (getProp ''finishReason'' parsed) in
         if isObject finishReason
         then
           if truthy (getProp ''unified'' finishReason)
           then Some (setFinishReason parsed (the (getProp ''unified'' finishReason)))
           else
             (let vals = objectValues finishReason in
              if length vals > 0 \<and> isString (hd vals)
              then Some (setFinishReason parsed (hd vals))
              else Some parsed)
         else Some parsed)
      else Some parsed)"

text \<open>\<^verbatim>\<open>String.prototype.trim\<close> on strings of code units below 256: the white space there
  is tab, line feed, vertical tab, form feed, carriage return, space and no-break space.\<close>

definition isWhiteSpace :: "char \<Rightarrow> bool" where
  "isWhiteSpace c =
     (c = CHR 0x09 \<or> c = CHR 0x0A \<or> c = CHR 0x0B \<or> c = CHR 0x0C \<or> c = CHR 0x0D
      \<or> c = CHR 0x20 \<or> c = CHR 0xA0)"

definition trim :: "string \<Rightarrow> string" where
  "trim s = rev (dropWhile isWhiteSpace (rev (dropWhile isWhiteSpace s)))"

text \<open>\<^verbatim>\<open>extractAndTransformJson\<close> (lines 426 to 456). \<^verbatim>\<open>JSON.parse\<close> and
  \<^verbatim>\<open>JSON.stringify\<close> are parameters: \<open>parse\<close> gives \<^term>\<open>None\<close> where
  \<^verbatim>\<open>JSON.parse\<close> throws. The result is the returned string (\<^term>\<open>None\<close> for
  \<^verbatim>\<open>null\<close>) and the warnings logged, each the first 100 characters of the payload.
  \<open>ssePayload\<close> is its first statements: the trimmed message without the prefix
  \<^verbatim>\<open>"data: "\<close>.\<close>

definition ssePayload :: "string \<Rightarrow> string" where
  "ssePayload sseMessage =
     (let jsonData = trim sseMessage
      in if prefix ''data: '' jsonData then drop 6 jsonData else jsonData)"

definition extractAndTransformJson ::
  "(string \<Rightarrow> json option) \<Rightarrow> (json \<Rightarrow> string) \<Rightarrow> string \<Rightarrow> string option \<times> string list" where
  "extractAndTransformJson parse stringify sseMessage =
     (let jsonData = ssePayload sseMessage
      in case parse jsonData of
           None \<Rightarrow> (None, [take 100 jsonData])
         | Some parsed \<Rightarrow>
             (case transformFinishReason parsed of
                None \<Rightarrow> (None, [take 100 jsonData])
              | Some transformed \<Rightarrow> (Some (stringify transformed), [])))"

text \<open>The state of \<^verbatim>\<open>pump\<close>: the \<^verbatim>\<open>buffer\<close>, the values passed to
  \<^verbatim>\<open>subscriber.next\<close>, and the warnings logged.\<close>

record pump_state =
  buffer :: string
  sent :: "string list"
  warned :: "string list"

text \<open>The frame delimiter \<^verbatim>\<open>"\n\n"\<close>.\<close>

definition frameEnd :: string where
  "frameEnd = [CHR 0x0A, CHR 0x0A]"

text \<open>What both loops do with a message: nothing when it trims to the empty string;
  otherwise it is transformed, and sent when the result is a non-empty string.\<close>

definition handleMessage ::
  "(string \<Rightarrow> json option) \<Rightarrow> (json \<Rightarrow> string) \<Rightarrow> pump_state \<Rightarrow> string \<Rightarrow> pump_state" where
  "handleMessage parse stringify s message =
     (if trim message = [] then s
      else
        (case extractAndTransformJson parse stringify (trim message) of
           (jsonData, ws) \<Rightarrow>
             (if truthy_str jsonData
              then s\<lparr>sent := sent s @ [the jsonData], warned := warned s @ ws\<rparr>
              else s\<lparr>warned := warned s @ ws\<rparr>)))"

text \<open>The inner \<^verbatim>\<open>while (true)\<close> loop (lines 374 to 392): complete messages are cut off the
  buffer and handled until no delimiter is left.\<close>

function drain ::
  "(string \<Rightarrow> json option) \<Rightarrow> (json \<Rightarrow> string) \<Rightarrow> pump_state \<Rightarrow> pump_state" where
  "drain parse stringify s =
     (case indexOf (buffer s) frameEnd of
        None \<Rightarrow> s
      | Some messageEndIndex \<Rightarrow>
          drain parse stringify
            (handleMessage parse stringify
               (s\<lparr>buffer := drop (messageEndIndex + 2) (buffer s)\<rparr>)
               (take messageEndIndex (buffer s))))"
  by pat_completeness auto
termination
proof (relation "measure (\<lambda>(parse, stringify, s). length (buffer s))")
  show "wf (measure (\<lambda>(parse, stringify, s). length (buffer s)))"
    by simp
next
  fix parse :: "string \<Rightarrow> json option" and stringify :: "json \<Rightarrow> string"
    and s :: pump_state and i :: nat
  assume found: "indexOf (buffer s) frameEnd = Some i"
  have bound: "indexOf b t = Some j \<Longrightarrow> j + length t \<le> length b" for b t j
  proof (induction b arbitrary: j)
    case Nil
    then show ?case by (simp split: if_splits)
  next
    case (Cons c cs)
    show ?case
    proof (cases "prefix t (c # cs)")
      case True
      then show ?thesis using Cons.prems by (auto dest: prefix_length_le)
    next
      case False
      then obtain k where "indexOf cs t = Some k" and "j = Suc k"
        using Cons.prems by auto
      then show ?thesis using Cons.IH by fastforce
    qed
  qed
  have "i + 2 \<le> length (buffer s)"
    using bound [OF found] by (simp add: frameEnd_def)
  moreover have "buffer (handleMessage parse stringify s' m) = buffer s'" for s' m
    by (simp add: handleMessage_def split: prod.splits)
  ultimately show "((parse, stringify,
            handleMessage parse stringify (s\<lparr>buffer := drop (i + 2) (buffer s)\<rparr>)
              (take i (buffer s))),
           parse, stringify, s)
          \<in> measure (\<lambda>(parse, stringify, s). length (buffer s))"
    by simp
qed

declare drain.simps [simp del]

text \<open>What the reader delivers before it is done: a chunk, or a failure of
  \<^verbatim>\<open>reader.read()\<close>.\<close>

datatype read_result = Chunk string | ReadError

datatype outcome = Completed | Errored

text \<open>\<^verbatim>\<open>pump\<close> (lines 350 to 408) on the chunks the reader delivers; the end of the list is
  \<^verbatim>\<open>done\<close>. A falsy chunk is skipped. At \<^verbatim>\<open>done\<close> the rest of the buffer is handled and
  the subscriber completes; a failed read ends in \<^verbatim>\<open>subscriber.error\<close>.\<close>

fun pump ::
  "(string \<Rightarrow> json option) \<Rightarrow> (json \<Rightarrow> string) \<Rightarrow> read_result list \<Rightarrow> pump_state
     \<Rightarrow> pump_state \<times> outcome" where
  "pump parse stringify [] s = (handleMessage parse stringify s (buffer s), Completed)"
| "pump parse stringify (ReadError # rs) s = (s, Errored)"
| "pump parse stringify (Chunk v # rs) s =
     pump parse stringify rs
       (if v \<noteq> [] then drain parse stringify (s\<lparr>buffer := buffer s @ v\<rparr>) else s)"

text \<open>What the consumer is to receive for one frame, stated without the loops: nothing for a
  blank frame or for a payload that does not parse (or parses to \<^verbatim>\<open>null\<close>), and
  otherwise the serialised, normalised payload. \<open>frameWarnings\<close> is what is to be logged
  for the frame.\<close>

definition frameOutput ::
  "(string \<Rightarrow> json option) \<Rightarrow> (json \<Rightarrow> string) \<Rightarrow> string \<Rightarrow> string list" where
  "frameOutput parse stringify frame =
     (if trim frame = [] then []
      else case parse (ssePayload frame) of
             None \<Rightarrow> []
           | Some parsed \<Rightarrow>
               (case transformFinishReason parsed of
                  None \<Rightarrow> []
                | Some transformed \<Rightarrow>
                    if stringify transformed = [] then [] else [stringify transformed]))"

definition frameWarnings :: "(string \<Rightarrow> json option) \<Rightarrow> string \<Rightarrow> string list" where
  "frameWarnings parse frame =
     (if trim frame = [] then []
      else case parse (ssePayload frame) of
             None \<Rightarrow> [take 100 (ssePayload frame)]
           | Some parsed \<Rightarrow>
               (case transformFinishReason parsed of
                  None \<Rightarrow> [take 100 (ssePayload frame)]
                | Some transformed \<Rightarrow> []))"

text \<open>The state in which \<^verbatim>\<open>pump\<close> starts: \<^verbatim>\<open>let buffer = ""\<close>, nothing sent.\<close>

definition initialPumpState :: pump_state where
  "initialPumpState = \<lparr>buffer = [], sent = [], warned = []\<rparr>"

section \<open>Example inputs\<close>

text \<open>A Store with one private chat of user \<open>u1\<close>, holding a user message and the
  assistant's answer, one registered stream, and two documents.\<close>

definition exUser :: jwt where
  "exUser = \<lparr>u_id = ''u1'', u_type = ''guest''\<rparr>"

definition exOther :: jwt where
  "exOther = \<lparr>u_id = ''u2'', u_type = ''guest''\<rparr>"

definition exUserMsg :: db_message where
  "exUserMsg = \<lparr>m_id = ''m1'', m_chatId = ''c1'', m_role = ''user'',
                 m_parts = [Part ''text'' ''Hello''], m_createdAt = 1000\<rparr>"

definition exAssistantMsg :: db_message where
  "exAssistantMsg = \<lparr>m_id = ''m2'', m_chatId = ''c1'', m_role = ''assistant'',
                      m_parts = [Part ''text'' ''Hi''], m_createdAt = 2000\<rparr>"

definition exStore :: store where
  "exStore =
     \<lparr>chats = [\<lparr>c_id = ''c1'', c_userId = ''u1'', c_title = ''New chat'', c_visibility = Private\<rparr>],
      messages = [exUserMsg, exAssistantMsg],
      streams = [(''s1'', ''c1'')],
      documents =
        [\<lparr>doc_id = ''d1'', doc_title = ''Essay'', doc_content = Some ''One. Two.'',
          doc_kind = Text, doc_userId = ''u1'', doc_createdAt = 1500\<rparr>,
         \<lparr>doc_id = ''d2'', doc_title = ''Picture'', doc_content = Some ''png'',
          doc_kind = Image, doc_userId = ''u1'', doc_createdAt = 1600\<rparr>],
      suggestions = [], saveSuggestions_calls = 0\<rparr>"

text \<open>An entitlement table that grants a guest one message per day.\<close>

definition exMax :: "string \<Rightarrow> nat" where
  "exMax userType = (if userType = ''guest'' then 1 else 2)"

definition exNewMsg :: chat_message where
  "exNewMsg = \<lparr>cm_id = ''m3'', cm_role = ''user'', cm_parts = [Part ''text'' ''More''],
                cm_createdAt = None\<rparr>"

text \<open>A request with a single new user message for the chat \<open>c1\<close>.\<close>

definition exDto :: dto where
  "exDto = \<lparr>d_id = ''c1'', d_message = Some exNewMsg, d_messages = None,
             d_selectedChatModel = ''chat-model'', d_selectedVisibilityType = Private\<rparr>"

text \<open>An approval-resume request, for a chat \<open>c9\<close> the Store does not hold.\<close>

definition exApprovalDto :: dto where
  "exApprovalDto =
     \<lparr>d_id = ''c9'', d_message = None,
      d_messages = Some
        [\<lparr>cm_id = ''m1'', cm_role = ''user'', cm_parts = [Part ''text'' ''Hello''],
          cm_createdAt = None\<rparr>,
         \<lparr>cm_id = ''m2'', cm_role = ''assistant'',
          cm_parts = [Part ''tool-getWeather'' ''approved''], cm_createdAt = None\<rparr>],
      d_selectedChatModel = ''chat-model'', d_selectedVisibilityType = Private\<rparr>"

text \<open>Generators that echo the title or the description, and a model that streams one
  line of code.\<close>

definition exGenerator :: generator where
  "exGenerator = \<lparr>g_onCreateDocument = (\<lambda>i title. ([DataContent title], title)),
                   g_onUpdateDocument = (\<lambda>doc description. ([DataContent description], description))\<rparr>"

definition exAi :: aiService where
  "exAi = \<lparr>ai_text = exGenerator,
            ai_codeCreate = (\<lambda>title. [OtherDelta, ObjectDelta (Some ''x = 1'')]),
            ai_codeUpdate = (\<lambda>doc description. [ObjectDelta (Some ''x = 2'')]),
            ai_sheet = exGenerator\<rparr>"

text \<open>A resumable-stream context in which every live feed has concluded.\<close>

definition exResumable :: "string \<Rightarrow> resumed" where
  "exResumable streamId = Concluded"

text \<open>An approval-resume request that also carries a single new user message, the same
  request without that message, both for the chat \<open>c1\<close>, and the messages a finished
  approval turn hands to \<open>onFinish\<close>.\<close>

definition exBothDto :: dto where
  "exBothDto = exApprovalDto\<lparr>d_id := ''c1'', d_message := Some exNewMsg\<rparr>"

definition exApprovalC1 :: dto where
  "exApprovalC1 = exApprovalDto\<lparr>d_id := ''c1''\<rparr>"

definition exFinished :: "chat_message list" where
  "exFinished =
     [\<lparr>cm_id = ''m1'', cm_role = ''user'', cm_parts = [Part ''text'' ''Hello''],
       cm_createdAt = None\<rparr>,
      \<lparr>cm_id = ''m2'', cm_role = ''assistant'',
       cm_parts = [Part ''tool-getWeather'' ''sunny''], cm_createdAt = None\<rparr>,
      \<lparr>cm_id = ''m4'', cm_role = ''assistant'', cm_parts = [Part ''text'' ''It is sunny''],
       cm_createdAt = None\<rparr>]"




text \<open>Instances of the parameters \<open>stringify\<close> and \<open>parse\<close> for the examples.
  \<open>exStringify\<close> writes compact JSON text for values without numbers and with strings that
  need no escape (a number is written \<open>0\<close>; the examples hold none); \<open>exParse\<close>
  accepts the payloads of the table \<open>exFrames\<close>, with the value \<^verbatim>\<open>JSON.parse\<close> gives for
  each, and rejects every other text, among them \<^verbatim>\<open>[DONE]\<close>.\<close>

fun joinWith :: "string \<Rightarrow> string list \<Rightarrow> string" where
  "joinWith sep [] = []"
| "joinWith sep [x] = x"
| "joinWith sep (x # y # ys) = x @ sep @ joinWith sep (y # ys)"

definition quoted :: "string \<Rightarrow> string" where
  "quoted s = [CHR 0x22] @ s @ [CHR 0x22]"

fun exStringify :: "json \<Rightarrow> string" where
  "exStringify JNull = ''null''"
| "exStringify (JBool b) = (if b then ''true'' else ''false'')"
| "exStringify (JNum n) = ''0''"
| "exStringify (JStr s) = quoted s"
| "exStringify (JArr vs) = ''['' @ joinWith '','' (map exStringify vs) @ '']''"
| "exStringify (JObj ps) =
     ''{'' @ joinWith '','' (map (\<lambda>p. quoted (fst p) @ '':'' @ exStringify (snd p)) ps) @ ''}''"

definition exFrames :: "(string \<times> json) list" where
  \<open>exFrames =
     [(''{"type":"text-delta","delta":"Hi"}'',
       JObj [(''type'', JStr ''text-delta''), (''delta'', JStr ''Hi'')]),
      (''{"type":"finish","finishReason":{"unified":"stop"}}'',
       JObj [(''type'', JStr ''finish''),
             (''finishReason'', JObj [(''unified'', JStr ''stop'')])]),
      (''{"type":"finish","finishReason":"stop"}'',
       JObj [(''type'', JStr ''finish''), (''finishReason'', JStr ''stop'')]),
      (''{"type":"finish","finishReason":{"raw":"end_turn"}}'',
       JObj [(''type'', JStr ''finish''),
             (''finishReason'', JObj [(''raw'', JStr ''end_turn'')])]),
      (''{"type":"finish-step","finishReason":{"unified":"stop"}}'',
       JObj [(''type'', JStr ''finish-step''),
             (''finishReason'', JObj [(''unified'', JStr ''stop'')])]),
      (''{"type":"finish","finishReason":{"raw":null,"reason":"stop"}}'',
       JObj [(''type'', JStr ''finish''),
             (''finishReason'', JObj [(''raw'', JNull), (''reason'', JStr ''stop'')])])]\<close>

definition exParse :: "string \<Rightarrow> json option" where
  "exParse text = map_of exFrames text"


section \<open>Properties\<close>

lemmas ex_defs = exUser_def exOther_def exUserMsg_def exAssistantMsg_def exStore_def
  exMax_def exNewMsg_def exDto_def

subsection \<open>The daily quota\<close>

text \<open>The quota check comes first: a request over the quota is rejected with the Store
  untouched, and a request within it is never rejected for the rate limit.\<close>

lemma createChatStream_over_quota:
  "maxMessagesPerDay (u_type user) < getMessageCountByUserId st (u_id user) 24 now \<Longrightarrow>
   createChatStream maxMessagesPerDay st d user now streamId = (st, Inl RateLimitChat)"
  by (simp add: createChatStream_def)

lemma createChatStream_within_quota:
  "getMessageCountByUserId st (u_id user) 24 now \<le> maxMessagesPerDay (u_type user) \<Longrightarrow>
   snd (createChatStream maxMessagesPerDay st d user now streamId) \<noteq> Inl RateLimitChat"
  by (auto simp add: createChatStream_def Let_def)

text \<open>
  Claim C1. A user with exactly \<open>maxMessagesPerDay\<close> messages in the last 24 hours should be
  rejected on the next attempt. The code compares with \<open>>\<close>: in the example Store the guest
  \<open>u1\<close> has one message in the window and is entitled to one per day, yet the next
  request is not rejected, and afterwards the user has two messages in the window.
\<close>

theorem quota_boundary_accepted:
  "getMessageCountByUserId exStore (u_id exUser) 24 5000 = exMax (u_type exUser)
   \<and> snd (createChatStream exMax exStore exDto exUser 5000 ''s2'') \<noteq> Inl RateLimitChat
   \<and> getMessageCountByUserId (fst (createChatStream exMax exStore exDto exUser 5000 ''s2''))
        (u_id exUser) 24 5000
      = Suc (exMax (u_type exUser))"
  by (simp add: ex_defs createChatStream_def getMessageCountByUserId_def getChatById_def Let_def
      isUserMessage_def saveMessages_def createStreamId_def getMessagesByChatId_def)

subsection \<open>Approval-resume for a chat that does not exist\<close>

text \<open>
  Claim C10. When the request carries a messages list and no single message, and the chat id
  is not in the Store, \<open>createChatStream\<close> creates no Chat record and raises neither
  \<open>not_found\<close> nor \<open>forbidden\<close>; once the quota check that precedes the branch has passed,
  the new stream identifier is registered against the chat id that does not exist.
\<close>

theorem approval_resume_unknown_chat:
  assumes "d_messages d \<noteq> None" and "d_message d = None"
    and "getChatById st (d_id d) = None"
  shows "chats (fst (createChatStream maxMessagesPerDay st d user now streamId)) = chats st
    \<and> snd (createChatStream maxMessagesPerDay st d user now streamId) \<noteq> Inl NotFoundChat
    \<and> snd (createChatStream maxMessagesPerDay st d user now streamId) \<noteq> Inl ForbiddenChat
    \<and> (getMessageCountByUserId st (u_id user) 24 now \<le> maxMessagesPerDay (u_type user) \<longrightarrow>
         streams (fst (createChatStream maxMessagesPerDay st d user now streamId))
           = streams st @ [(streamId, d_id d)]
         \<and> (\<exists>ss. snd (createChatStream maxMessagesPerDay st d user now streamId) = Inr ss
                  \<and> ss_streamId ss = streamId))"
  using assms
  by (auto simp add: createChatStream_def Let_def isUserMessage_def createStreamId_def)

theorem approval_resume_unknown_chat_witness:
  "d_messages exApprovalDto \<noteq> None \<and> d_message exApprovalDto = None
   \<and> getChatById exStore (d_id exApprovalDto) = None
   \<and> getMessageCountByUserId exStore (u_id exUser) 24 5000 \<le> exMax (u_type exUser)
   \<and> chats (fst (createChatStream exMax exStore exApprovalDto exUser 5000 ''s2'')) = chats exStore
   \<and> snd (createChatStream exMax exStore exApprovalDto exUser 5000 ''s2'') \<noteq> Inl NotFoundChat
   \<and> snd (createChatStream exMax exStore exApprovalDto exUser 5000 ''s2'') \<noteq> Inl ForbiddenChat
   \<and> streams (fst (createChatStream exMax exStore exApprovalDto exUser 5000 ''s2''))
       = [(''s1'', ''c1''), (''s2'', ''c9'')]"
proof -
  have a: "d_messages exApprovalDto \<noteq> None" by (simp add: exApprovalDto_def)
  have b: "d_message exApprovalDto = None" by (simp add: exApprovalDto_def)
  have c: "getChatById exStore (d_id exApprovalDto) = None"
    by (simp add: exApprovalDto_def exStore_def getChatById_def)
  have d: "getMessageCountByUserId exStore (u_id exUser) 24 5000 \<le> exMax (u_type exUser)"
    by (simp add: ex_defs getMessageCountByUserId_def getChatById_def)
  have e: "streams exStore = [(''s1'', ''c1'')]" "d_id exApprovalDto = ''c9''"
    by (simp_all add: exStore_def exApprovalDto_def)
  show ?thesis
    using a b c d e approval_resume_unknown_chat [OF a b c, of exMax exUser 5000 "''s2''"]
    by simp
qed

subsection \<open>Substring search\<close>

text \<open>\<open>indexOf\<close> finds an occurrence exactly when there is one, so \<open>includes_str\<close> is
  the substring test.\<close>

lemma indexOf_Some_split:
  "indexOf s t = Some i \<Longrightarrow> \<exists>q. s = take i s @ t @ q \<and> i \<le> length s"
proof (induction s arbitrary: i)
  case Nil
  then show ?case by (simp split: if_splits)
next
  case (Cons c cs)
  show ?case
  proof (cases "prefix t (c # cs)")
    case True
    then show ?thesis using Cons.prems by (auto simp: prefix_def)
  next
    case False
    then obtain k where k: "indexOf cs t = Some k" "i = Suc k"
      using Cons.prems by auto
    from Cons.IH [OF k(1)] obtain q where "cs = take k cs @ t @ q" "k \<le> length cs" by blast
    then show ?thesis using k(2) by auto
  qed
qed

lemma indexOf_None_no_occurrence:
  "indexOf s t = None \<Longrightarrow> s \<noteq> p @ t @ q"
proof (induction s arbitrary: p)
  case Nil
  then show ?case by (auto split: if_splits)
next
  case (Cons c cs)
  from Cons.prems have np: "\<not> prefix t (c # cs)" and rest: "indexOf cs t = None"
    by (auto split: if_splits)
  show ?case
  proof (cases p)
    case Nil
    then show ?thesis using np by (auto simp: prefix_def)
  next
    case (Cons a p')
    then show ?thesis using Cons.IH [OF rest, of p'] by auto
  qed
qed

lemma includes_str_iff: "includes_str s t \<longleftrightarrow> (\<exists>p q. s = p @ t @ q)"
proof
  assume "includes_str s t"
  then obtain i where "indexOf s t = Some i" by (auto simp: includes_str_def)
  from indexOf_Some_split [OF this] show "\<exists>p q. s = p @ t @ q" by blast
next
  assume "\<exists>p q. s = p @ t @ q"
  then show "includes_str s t"
    using indexOf_None_no_occurrence [of s t] by (auto simp: includes_str_def)
qed

lemma isReasoningModel_iff:
  "isReasoningModel m \<longleftrightarrow> (\<exists>p q. m = p @ ''reasoning'' @ q) \<or> (\<exists>p q. m = p @ ''thinking'' @ q)"
  by (simp only: isReasoningModel_def includes_str_iff)

subsection \<open>Tools and smoothing by model variant\<close>

text \<open>
  Claim C6. A model identifier denotes a reasoning variant when it contains \<open>reasoning\<close> or
  \<open>thinking\<close> (\<open>isReasoningModel\<close>, characterised by \<open>isReasoningModel_iff\<close>). For such an
  identifier no tool is active and no smoothing transform is applied; for every other
  identifier the four tools are active and the transform smooths by word.
\<close>

theorem reasoning_model_options:
  "(isReasoningModel selectedChatModel \<longrightarrow>
      experimental_activeTools (streamTextOptions selectedChatModel) = []
      \<and> experimental_transform (streamTextOptions selectedChatModel) = None)
   \<and> (\<not> isReasoningModel selectedChatModel \<longrightarrow>
      experimental_activeTools (streamTextOptions selectedChatModel)
        = [''getWeather'', ''createDocument'', ''updateDocument'', ''requestSuggestions'']
      \<and> experimental_transform (streamTextOptions selectedChatModel) = Some (SmoothStream ''word''))"
  by (simp add: streamTextOptions_def)

lemma chat_model_reasoning_is_reasoning: "isReasoningModel ''chat-model-reasoning''"
  by (simp add: isReasoningModel_def includes_str_def)
lemma chat_model_is_not_reasoning: "\<not> isReasoningModel ''chat-model''"
  by (simp add: isReasoningModel_def includes_str_def)

theorem reasoning_model_options_witness:
  "isReasoningModel ''chat-model-reasoning''
   \<and> experimental_activeTools (streamTextOptions ''chat-model-reasoning'') = []
   \<and> experimental_transform (streamTextOptions ''chat-model-reasoning'') = None
   \<and> \<not> isReasoningModel ''chat-model''
   \<and> experimental_activeTools (streamTextOptions ''chat-model'')
        = [''getWeather'', ''createDocument'', ''updateDocument'', ''requestSuggestions'']
   \<and> experimental_transform (streamTextOptions ''chat-model'') = Some (SmoothStream ''word'')"
  using reasoning_model_options [of "''chat-model-reasoning''"]
    reasoning_model_options [of "''chat-model''"] chat_model_reasoning_is_reasoning chat_model_is_not_reasoning
  by simp

subsection \<open>A document kind without a handler\<close>

lemma registry_kinds: "map h_kind (createDocumentHandlers ai) = [Text, Code, Sheet]"
  by (simp add: createDocumentHandlers_def createTextDocumentHandler_def
      createCodeDocumentHandler_def createSheetDocumentHandler_def createDocumentHandler_def)

lemma find_image_handler:
  "find (\<lambda>handler. h_kind handler = Image) (createDocumentHandlers ai) = None"
  by (simp add: createDocumentHandlers_def createTextDocumentHandler_def
      createCodeDocumentHandler_def createSheetDocumentHandler_def createDocumentHandler_def)

text \<open>
  Claim C9. The schema of \<open>createDocument\<close> admits the kind \<open>image\<close>, the registry holds
  handlers for text, code and sheet only; so \<open>createDocument\<close> with kind \<open>image\<close> writes
  its four preliminary chunks and then throws, leaving the Store as it was, whereas
  \<open>updateDocument\<close> on a document of a kind without a handler returns an error payload.
\<close>

theorem createDocument_image_throws:
  "map h_kind (createDocumentHandlers ai) = [Text, Code, Sheet]
   \<and> createDocument (createDocumentHandlers ai) session st now i title Image
       = ([DataKind Image, DataId i, DataTitle title, DataClear], st,
          Threw ''No document handler found for kind: image'')
   \<and> (\<forall>doc. getDocumentById st documentId = Some doc \<and> doc_kind doc = Image \<longrightarrow>
         updateDocument (createDocumentHandlers ai) session st now documentId changes
           = ([DataClear], st,
              Returned (ErrorPayload ''No document handler found for kind: image'')))"
  by (simp add: registry_kinds createDocument_def updateDocument_def find_image_handler)

theorem createDocument_image_throws_witness:
  "(\<exists>doc. getDocumentById exStore ''d2'' = Some doc \<and> doc_kind doc = Image)
   \<and> createDocument (createDocumentHandlers exAi) exUser exStore 5000 ''d3'' ''Cat'' Image
       = ([DataKind Image, DataId ''d3'', DataTitle ''Cat'', DataClear], exStore,
          Threw ''No document handler found for kind: image'')
   \<and> updateDocument (createDocumentHandlers exAi) exUser exStore 5000 ''d2'' ''brighter''
       = ([DataClear], exStore,
          Returned (ErrorPayload ''No document handler found for kind: image''))"
proof -
  have d: "getDocumentById exStore ''d2''
      = Some \<lparr>doc_id = ''d2'', doc_title = ''Picture'', doc_content = Some ''png'',
          doc_kind = Image, doc_userId = ''u1'', doc_createdAt = 1600\<rparr>"
    by (simp add: getDocumentById_def exStore_def)
  show ?thesis
    using d createDocument_image_throws [where ai = exAi and session = exUser and st = exStore
        and now = 5000 and i = "''d3''" and title = "''Cat''" and documentId = "''d2''"
        and changes = "''brighter''"]
    by simp
qed

subsection \<open>Existence and visibility checks\<close>

text \<open>
  Claim C7, as stated, fails for a resume request when the service has no resumable-stream
  context: the request then returns \<open>null\<close> before the chat is looked up, whether the chat
  exists or not and whoever asks.
\<close>

theorem resume_without_context_counterexample:
  "getChatById exStore ''c0'' = None
   \<and> getResumableStream None exStore ''c0'' ''u2'' 5000 \<noteq> Inl NotFoundChat
   \<and> getResumableStream None exStore ''c1'' ''u2'' 5000 \<noteq> Inl ForbiddenChat"
  by (simp add: getChatById_def exStore_def getResumableStream_def)

text \<open>
  Claim C7, amended. Reading a chat, and resuming a stream when the service has a
  resumable-stream context: a chat id that does not exist fails with \<open>not_found\<close>, whoever
  asks, so before any visibility check; a private chat read by an identity other than its
  owner fails with \<open>forbidden\<close>. Without a resumable-stream context a resume request returns
  \<open>null\<close> and raises no error.
\<close>

theorem chat_access_checks:
  "(getChatById st chatId = None \<longrightarrow>
      getChatWithMessages st chatId userId = Inl NotFoundChat
      \<and> getResumableStream (Some resumableStream) st chatId userId now = Inl NotFoundChat)
   \<and> (\<forall>chat. getChatById st chatId = Some chat \<and> c_visibility chat = Private
             \<and> c_userId chat \<noteq> userId \<longrightarrow>
      getChatWithMessages st chatId userId = Inl ForbiddenChat
      \<and> getResumableStream (Some resumableStream) st chatId userId now = Inl ForbiddenChat)
   \<and> getResumableStream None st chatId userId now = Inr Unavailable"
  by (simp add: getChatWithMessages_def getResumableStream_def)

theorem chat_access_checks_witness:
  "getChatById exStore ''c0'' = None
   \<and> getChatWithMessages exStore ''c0'' ''u2'' = Inl NotFoundChat
   \<and> getResumableStream (Some exResumable) exStore ''c0'' ''u2'' 5000 = Inl NotFoundChat
   \<and> (\<exists>chat. getChatById exStore ''c1'' = Some chat \<and> c_visibility chat = Private
          \<and> c_userId chat \<noteq> ''u2'')
   \<and> getChatWithMessages exStore ''c1'' ''u2'' = Inl ForbiddenChat
   \<and> getResumableStream (Some exResumable) exStore ''c1'' ''u2'' 5000 = Inl ForbiddenChat"
proof -
  have a: "getChatById exStore ''c0'' = None"
    by (simp add: getChatById_def exStore_def)
  have b: "getChatById exStore ''c1''
     = Some \<lparr>c_id = ''c1'', c_userId = ''u1'', c_title = ''New chat'', c_visibility = Private\<rparr>"
    by (simp add: getChatById_def exStore_def)
  show ?thesis
    using a b chat_access_checks [of exStore "''c0''" "''u2''" exResumable 5000]
      chat_access_checks [of exStore "''c1''" "''u2''" exResumable 5000]
    by simp
qed

subsection \<open>Resuming a concluded stream\<close>

lemma differenceInSeconds_gt_15:
  "differenceInSeconds laterDate earlierDate > 15 \<longleftrightarrow> 16000 \<le> laterDate - earlierDate"
  by (auto simp add: differenceInSeconds_def Let_def)

lemma getResumableStream_concluded:
  assumes "getChatById st chatId = Some chat"
    and "\<not> (c_visibility chat = Private \<and> c_userId chat \<noteq> userId)"
    and "getStreamIdsByChatId st chatId \<noteq> []"
    and "last (getStreamIdsByChatId st chatId) \<noteq> []"
    and "resumableStream (last (getStreamIdsByChatId st chatId)) = Concluded"
    and "getMessagesByChatId st chatId \<noteq> []"
    and "m_role (last (getMessagesByChatId st chatId)) = ''assistant''"
  shows "getResumableStream (Some resumableStream) st chatId userId t
     = (if 16000 \<le> t - m_createdAt (last (getMessagesByChatId st chatId))
        then Inr (Feed [])
        else Inr (Feed [DataAppendMessage (last (getMessagesByChatId st chatId))]))"
  using assms
  by (simp add: getResumableStream_def Let_def differenceInSeconds_gt_15 emptyDataStream_def)

lemma ex_resume_facts:
  "getChatById exStore ''c1''
     = Some \<lparr>c_id = ''c1'', c_userId = ''u1'', c_title = ''New chat'', c_visibility = Private\<rparr>"
  "getStreamIdsByChatId exStore ''c1'' = [''s1'']"
  "getMessagesByChatId exStore ''c1'' = [exUserMsg, exAssistantMsg]"
  "m_role exAssistantMsg = ''assistant''" "m_createdAt exAssistantMsg = 2000"
  by (simp_all add: getChatById_def getStreamIdsByChatId_def getMessagesByChatId_def
      exStore_def exUserMsg_def exAssistantMsg_def)

text \<open>Where the window of 15 seconds and the whole seconds of \<open>differenceInSeconds\<close> agree:
  a last assistant message persisted 16 seconds or more before the request gives the empty
  feed, for this request and for every later one; one persisted at most 15 seconds before
  the request gives the feed of exactly one catch-up event carrying that message.\<close>

lemma resume_concluded_feed:
  assumes "getChatById st chatId = Some chat"
    and "\<not> (c_visibility chat = Private \<and> c_userId chat \<noteq> userId)"
    and "getStreamIdsByChatId st chatId \<noteq> []"
    and "last (getStreamIdsByChatId st chatId) \<noteq> []"
    and "resumableStream (last (getStreamIdsByChatId st chatId)) = Concluded"
    and "getMessagesByChatId st chatId \<noteq> []"
    and "m_role (last (getMessagesByChatId st chatId)) = ''assistant''"
  shows "(16000 \<le> resumeRequestedAt - m_createdAt (last (getMessagesByChatId st chatId)) \<longrightarrow>
           (\<forall>t. resumeRequestedAt \<le> t \<longrightarrow>
              getResumableStream (Some resumableStream) st chatId userId t = Inr (Feed [])))
       \<and> (resumeRequestedAt - m_createdAt (last (getMessagesByChatId st chatId)) \<le> 15000 \<longrightarrow>
           getResumableStream (Some resumableStream) st chatId userId resumeRequestedAt
             = Inr (Feed [DataAppendMessage (last (getMessagesByChatId st chatId))]))"
  using assms
  by (simp add: getResumableStream_concluded [where resumableStream = resumableStream and chat = chat])

text \<open>
  Claim C2. On a chat whose live feed has concluded and whose last persisted message is an
  assistant message, a resume request that comes more than 15 seconds after that message
  should receive the empty feed. The comment at line 623 says the same (only restore if the
  message was created within 15 seconds), but line 624 compares the truncated whole seconds of
  \<open>differenceInSeconds\<close> with 15: in the example Store the last message of chat \<open>c1\<close> is
  the assistant's, persisted at 2000 ms, and a resume request at 17500 ms, 15.5 seconds
  later, is still answered with the catch-up event instead of the empty feed.
\<close>

theorem resume_after_15_seconds_replayed:
  "m_role (last (getMessagesByChatId exStore ''c1'')) = ''assistant''
   \<and> 15 * 1000 < 17500 - m_createdAt (last (getMessagesByChatId exStore ''c1''))
   \<and> getResumableStream (Some exResumable) exStore ''c1'' ''u1'' 17500
       = Inr (Feed [DataAppendMessage exAssistantMsg])
   \<and> getResumableStream (Some exResumable) exStore ''c1'' ''u1'' 17500 \<noteq> Inr (Feed [])"
  by (simp add: ex_resume_facts getResumableStream_def exResumable_def differenceInSeconds_def)

subsection \<open>Persistence in the approval flow\<close>

lemma persistFinished_update:
  "inTranscript ss (cm_id f) \<Longrightarrow>
   persistFinished ss t st f = updateMessage st (cm_id f) (cm_parts f)"
  by (auto simp add: persistFinished_def inTranscript_def find_None_iff split: option.splits)

lemma persistFinished_insert:
  "\<not> inTranscript ss (cm_id f) \<Longrightarrow>
   persistFinished ss t st f = saveMessages st [toDbMessage (ss_id ss) t f]"
  by (auto simp add: persistFinished_def inTranscript_def find_None_iff split: option.splits
      dest: find_Some_iff [THEN iffD1])

lemma updateMessage_ids: "map m_id (messages (updateMessage st i ps)) = map m_id (messages st)"
  by (simp add: updateMessage_def comp_def)

lemma persistFinished_ids:
  "map m_id (messages (persistFinished ss t st f))
     = map m_id (messages st) @ (if inTranscript ss (cm_id f) then [] else [cm_id f])"
  by (simp add: persistFinished_update persistFinished_insert updateMessage_ids
      saveMessages_def toDbMessage_def)

lemma foldl_persistFinished_ids:
  "map m_id (messages (foldl (persistFinished ss t) st fin))
     = map m_id (messages st) @ map cm_id (filter (\<lambda>f. \<not> inTranscript ss (cm_id f)) fin)"
  by (induction fin arbitrary: st) (simp_all add: persistFinished_ids)

lemma persistFinished_other_parts:
  assumes "m \<in> set (messages (persistFinished ss t st f))" and "m_id m \<noteq> cm_id f"
  shows "m \<in> set (messages st)"
  using assms
  by (cases "inTranscript ss (cm_id f)")
     (auto simp add: persistFinished_update persistFinished_insert updateMessage_def
        saveMessages_def toDbMessage_def split: if_splits)

lemma persistFinished_updated_parts:
  assumes "inTranscript ss (cm_id f)" and "m \<in> set (messages (persistFinished ss t st f))"
    and "m_id m = cm_id f"
  shows "m_parts m = cm_parts f"
  using assms by (auto simp add: persistFinished_update updateMessage_def split: if_splits)

lemma foldl_persistFinished_parts:
  assumes "distinct (map cm_id fin)" and "f \<in> set fin" and "inTranscript ss (cm_id f)"
    and "m \<in> set (messages (foldl (persistFinished ss t) st fin))" and "m_id m = cm_id f"
  shows "m_parts m = cm_parts f"
  using assms
proof (induction fin arbitrary: m rule: rev_induct)
  case Nil
  then show ?case by simp
next
  case (snoc g gs)
  show ?case
  proof (cases "f = g")
    case True
    then show ?thesis using snoc.prems persistFinished_updated_parts by auto
  next
    case False
    then have fin: "f \<in> set gs" using snoc.prems by auto
    then have neq: "cm_id f \<noteq> cm_id g" using snoc.prems(1) by (auto simp add: image_iff)
    have "m \<in> set (messages (foldl (persistFinished ss t) st gs))"
      using snoc.prems(4,5) neq persistFinished_other_parts [of m ss t _ g] by simp
    then show ?thesis using snoc.IH fin snoc.prems by simp
  qed
qed

lemma foldl_persistFinished_new:
  assumes "f \<in> set fin" and "\<not> inTranscript ss (cm_id f)"
  shows "toDbMessage (ss_id ss) t f \<in> set (messages (foldl (persistFinished ss t) st fin))"
  using assms
proof (induction fin rule: rev_induct)
  case Nil
  then show ?case by simp
next
  case (snoc g gs)
  show ?case
  proof (cases "f = g")
    case True
    then show ?thesis using snoc.prems by (simp add: persistFinished_insert saveMessages_def)
  next
    case False
    then have "f \<in> set gs" using snoc.prems by auto
    then have old: "toDbMessage (ss_id ss) t f \<in> set (messages (foldl (persistFinished ss t) st gs))"
      using snoc by auto
    show ?thesis
    proof (cases "inTranscript ss (cm_id g)")
      case True
      then have "cm_id f \<noteq> cm_id g" using snoc.prems(2) by auto
      then show ?thesis using old True
        by (auto simp add: persistFinished_update updateMessage_def toDbMessage_def)
    next
      case False
      then show ?thesis using old by (simp add: persistFinished_insert saveMessages_def)
    qed
  qed
qed

lemma createChatStream_approval_setup:
  assumes "d_messages d = Some ms"
    and "createChatStream maxMessagesPerDay st d user now streamId = (st1, Inr ss)"
  shows "ss_isToolApprovalFlow ss \<and> ss_uiMessages ss = map Some ms \<and> ss_id ss = d_id d"
  using assms by (auto simp add: createChatStream_def Let_def split: if_splits)

lemma createChatStream_no_user_message:
  assumes "\<not> isUserMessage (d_message d)"
  shows "messages (fst (createChatStream maxMessagesPerDay st d user now streamId)) = messages st"
  using assms
  by (auto simp add: createChatStream_def Let_def isUserMessage_def createStreamId_def
      split: option.splits)

lemma inTranscript_approval:
  "ss_uiMessages ss = map Some ms \<Longrightarrow> inTranscript ss i \<longleftrightarrow> i \<in> cm_id ` set ms"
  by (auto simp add: inTranscript_def hasId_def)

text \<open>
  Claim C4, as stated, fails for a request that carries a messages list together with a
  single user message: the approval branch is taken, and the user message is persisted all
  the same, since line 165 tests the message alone.
\<close>

theorem approval_with_user_message_counterexample:
  "d_messages exBothDto \<noteq> None
   \<and> messages (fst (createChatStream exMax exStore exBothDto exUser 5000 ''s2''))
       = messages exStore
         @ [\<lparr>m_id = ''m3'', m_chatId = ''c1'', m_role = ''user'',
             m_parts = [Part ''text'' ''More''], m_createdAt = 5000\<rparr>]"
  by (simp add: ex_defs exBothDto_def exApprovalDto_def createChatStream_def
      getMessageCountByUserId_def getChatById_def Let_def isUserMessage_def createStreamId_def
      saveMessages_def)

text \<open>
  Claim C4, amended. When the request carries a messages list and no single user message,
  \<open>createChatStream\<close> persists no message. On completion, whatever the Store holds by then,
  the stored ids are the ids stored before followed by the finished messages whose id is not
  in the input transcript, in order: a finished message whose id is in the transcript is
  never inserted again, and each other one is inserted as new. When the finished messages have
  distinct ids, every stored message with the id of a finished message of the transcript
  carries that finished message's parts.
\<close>

theorem approval_flow_persistence:
  assumes "d_messages d = Some ms" and "\<not> isUserMessage (d_message d)"
    and "createChatStream maxMessagesPerDay st d user now streamId = (st1, Inr ss)"
  shows "messages st1 = messages st
    \<and> map m_id (messages (onFinish ss t st2 finishedMessages))
        = map m_id (messages st2)
          @ map cm_id (filter (\<lambda>f. cm_id f \<notin> cm_id ` set ms) finishedMessages)
    \<and> (\<forall>f \<in> set finishedMessages. cm_id f \<notin> cm_id ` set ms \<longrightarrow>
          toDbMessage (d_id d) t f \<in> set (messages (onFinish ss t st2 finishedMessages)))
    \<and> (distinct (map cm_id finishedMessages) \<longrightarrow>
        (\<forall>f \<in> set finishedMessages. cm_id f \<in> cm_id ` set ms \<longrightarrow>
           (\<forall>m \<in> set (messages (onFinish ss t st2 finishedMessages)).
              m_id m = cm_id f \<longrightarrow> m_parts m = cm_parts f)))"
proof -
  have ctx: "ss_isToolApprovalFlow ss" "ss_uiMessages ss = map Some ms" "ss_id ss = d_id d"
    using createChatStream_approval_setup [OF assms(1,3)] by simp_all
  have tr: "inTranscript ss i \<longleftrightarrow> i \<in> cm_id ` set ms" for i
    using inTranscript_approval [OF ctx(2)] .
  have fin: "onFinish ss t st2 finishedMessages = foldl (persistFinished ss t) st2 finishedMessages"
    using ctx(1) by (simp add: onFinish_def)
  have one: "messages st1 = messages st"
    using createChatStream_no_user_message [OF assms(2), of maxMessagesPerDay st user now streamId]
      assms(3) by simp
  have two: "map m_id (messages (onFinish ss t st2 finishedMessages))
        = map m_id (messages st2)
          @ map cm_id (filter (\<lambda>f. cm_id f \<notin> cm_id ` set ms) finishedMessages)"
    unfolding fin foldl_persistFinished_ids tr ..
  have three: "toDbMessage (d_id d) t f \<in> set (messages (onFinish ss t st2 finishedMessages))"
    if "f \<in> set finishedMessages" "cm_id f \<notin> cm_id ` set ms" for f
    using foldl_persistFinished_new [of f finishedMessages ss t st2] that tr fin ctx(3) by simp
  have four: "m_parts m = cm_parts f"
    if "distinct (map cm_id finishedMessages)" "f \<in> set finishedMessages"
      "cm_id f \<in> cm_id ` set ms" "m \<in> set (messages (onFinish ss t st2 finishedMessages))"
      "m_id m = cm_id f" for f m
    using foldl_persistFinished_parts [of finishedMessages f ss m t st2] that tr fin by simp
  show ?thesis using one two three four by blast
qed


lemma ex_approval_stream:
  "createChatStream exMax exStore exApprovalC1 exUser 5000 ''s2''
     = (exStore\<lparr>streams := [(''s1'', ''c1''), (''s2'', ''c1'')]\<rparr>,
        Inr \<lparr>ss_id = ''c1'', ss_isToolApprovalFlow = True,
             ss_uiMessages = map Some (the (d_messages exApprovalC1)),
             ss_streamId = ''s2'', ss_titleFrom = None, ss_selectedChatModel = ''chat-model''\<rparr>)"
  by (simp add: ex_defs exApprovalC1_def exApprovalDto_def createChatStream_def
      getMessageCountByUserId_def getChatById_def Let_def isUserMessage_def createStreamId_def)

theorem approval_flow_persistence_witness:
  "d_messages exApprovalC1 \<noteq> None \<and> \<not> isUserMessage (d_message exApprovalC1)
   \<and> messages (fst (createChatStream exMax exStore exApprovalC1 exUser 5000 ''s2''))
       = messages exStore
   \<and> messages (onFinish
        (projr (snd (createChatStream exMax exStore exApprovalC1 exUser 5000 ''s2''))) 6000
        (fst (createChatStream exMax exStore exApprovalC1 exUser 5000 ''s2'')) exFinished)
      = [exUserMsg,
         exAssistantMsg\<lparr>m_parts := [Part ''tool-getWeather'' ''sunny'']\<rparr>,
         \<lparr>m_id = ''m4'', m_chatId = ''c1'', m_role = ''assistant'',
          m_parts = [Part ''text'' ''It is sunny''], m_createdAt = 6000\<rparr>]"
proof -
  have a: "d_messages exApprovalC1 = Some (the (d_messages exApprovalC1))"
    by (simp add: exApprovalC1_def exApprovalDto_def)
  have a': "d_messages exApprovalC1 \<noteq> None"
    by (simp add: exApprovalC1_def exApprovalDto_def)
  have b: "\<not> isUserMessage (d_message exApprovalC1)"
    by (simp add: exApprovalC1_def exApprovalDto_def isUserMessage_def)
  note inst = approval_flow_persistence [OF a b ex_approval_stream, of 6000
      "exStore\<lparr>streams := [(''s1'', ''c1''), (''s2'', ''c1'')]\<rparr>" exFinished]
  have c: "messages (onFinish
        \<lparr>ss_id = ''c1'', ss_isToolApprovalFlow = True,
         ss_uiMessages = map Some (the (d_messages exApprovalC1)),
         ss_streamId = ''s2'', ss_titleFrom = None, ss_selectedChatModel = ''chat-model''\<rparr>
        6000 (exStore\<lparr>streams := [(''s1'', ''c1''), (''s2'', ''c1'')]\<rparr>) exFinished)
      = [exUserMsg,
         exAssistantMsg\<lparr>m_parts := [Part ''tool-getWeather'' ''sunny'']\<rparr>,
         \<lparr>m_id = ''m4'', m_chatId = ''c1'', m_role = ''assistant'',
          m_parts = [Part ''text'' ''It is sunny''], m_createdAt = 6000\<rparr>]"
    by (simp add: onFinish_def persistFinished_def hasId_def
        exApprovalC1_def exApprovalDto_def exFinished_def updateMessage_def saveMessages_def
        toDbMessage_def exStore_def exUserMsg_def exAssistantMsg_def)
  show ?thesis
    unfolding ex_approval_stream fst_conv snd_conv sum.sel
    using a' b c inst by simp
qed

subsection \<open>The suggestions tool\<close>




lemma drop_take_drop: "n \<le> k \<Longrightarrow> drop n (take k xs) @ drop k xs = drop n xs"
  by (induction xs arbitrary: n k) (auto simp add: drop_Cons take_Cons split: nat.splits)

lemma newElements_growing:
  assumes "sorted (n # ks)" and "\<forall>k \<in> set ks. k \<le> length es"
  shows "newElements n (map (\<lambda>k. Some (take k es)) ks) = drop n (take (last (n # ks)) es)"
  using assms
proof (induction ks arbitrary: n)
  case Nil
  then show ?case by simp
next
  case (Cons k ks)
  have nk: "n \<le> k" and kl: "k \<le> length es" and sk: "sorted (k # ks)"
    and le: "\<forall>j \<in> set ks. j \<le> length es"
    using Cons.prems by auto
  have kL: "k \<le> last (k # ks)" using sk by (induction ks) auto
  have len: "n + length (drop n (take k es)) = k" using nk kl by simp
  have tk: "take k es = take k (take (last (k # ks)) es)"
    using kL by (simp only: take_take min_absorb1)
  have "newElements n (map (\<lambda>k. Some (take k es)) (k # ks))
      = drop n (take k es) @ drop k (take (last (k # ks)) es)"
    using Cons.IH [OF sk le] by (simp only: list.map newElements.simps len)
  also have "\<dots> = drop n (take (last (k # ks)) es)"
    by (subst tk) (rule drop_take_drop [OF nk])
  finally show ?case by simp
qed








subsection \<open>Malformed frames\<close>

text \<open>Trimming twice is trimming once, so the payload of a trimmed message is the payload of
  the message. A frame without a line feed in front of the delimiter is the message the loop
  cuts off.\<close>

lemma dropWhile_snoc_keeps_last:
  "\<not> P x \<Longrightarrow> \<exists>zs. dropWhile P (ys @ [x]) = zs @ [x]"
  by (induction ys) auto

lemma trim_trim: "trim (trim s) = trim s"
proof (cases "dropWhile isWhiteSpace s")
  case Nil
  show ?thesis unfolding trim_def Nil by simp
next
  case (Cons x xs)
  then have nx: "\<not> isWhiteSpace x"
    using hd_dropWhile [of isWhiteSpace s] by auto
  obtain zs where zs: "dropWhile isWhiteSpace (rev xs @ [x]) = zs @ [x]"
    using dropWhile_snoc_keeps_last [of isWhiteSpace x "rev xs"] nx by blast
  have t: "trim s = x # rev zs"
    by (simp add: trim_def Cons zs)
  have "dropWhile isWhiteSpace (zs @ [x]) = zs @ [x]"
    using zs dropWhile_idem [of isWhiteSpace "rev xs @ [x]"] by simp
  then show ?thesis
    by (simp add: t) (simp add: trim_def nx)
qed

lemma ssePayload_trim: "ssePayload (trim m) = ssePayload m"
  by (simp add: ssePayload_def trim_trim)

lemma indexOf_frameEnd:
  "CHR 0x0A \<notin> set frame \<Longrightarrow> indexOf (frame @ frameEnd @ rest) frameEnd = Some (length frame)"
proof (induction frame)
  case Nil
  then show ?case by (simp add: frameEnd_def)
next
  case (Cons c cs)
  then have "\<not> prefix frameEnd (c # cs @ frameEnd @ rest)"
    by (auto simp add: frameEnd_def)
  then show ?case using Cons by simp
qed

text \<open>Handling a message sends the output of the frame and logs its warnings. Draining is
  incremental: draining, appending a chunk and draining again is draining the buffer with
  the chunk appended. So \<open>pump\<close>, however the stream is cut into chunks, handles the frames
  of the whole stream in order, then what is left without a delimiter, and completes.\<close>

lemma handleMessage_frame:
  "handleMessage parse stringify s frame
     = s\<lparr>sent := sent s @ frameOutput parse stringify frame,
         warned := warned s @ frameWarnings parse frame\<rparr>"
  by (simp add: handleMessage_def extractAndTransformJson_def ssePayload_trim truthy_str_def
      frameOutput_def frameWarnings_def split: option.splits)

lemma indexOf_no_line_feed:
  "CHR 0x0A \<notin> set b \<Longrightarrow> indexOf b frameEnd = None"
  by (induction b) (auto simp add: frameEnd_def)

lemma indexOf_length: "indexOf b t = Some i \<Longrightarrow> i + length t \<le> length b"
proof (induction b arbitrary: i)
  case Nil
  then show ?case by (simp split: if_splits)
next
  case (Cons c cs)
  show ?case
  proof (cases "prefix t (c # cs)")
    case True
    then show ?thesis using Cons.prems by (auto dest: prefix_length_le)
  next
    case False
    then obtain k where "indexOf cs t = Some k" and "i = Suc k"
      using Cons.prems by auto
    then show ?thesis using Cons.IH by fastforce
  qed
qed

lemma indexOf_append: "indexOf b t = Some i \<Longrightarrow> indexOf (b @ v) t = Some i"
proof (induction b arbitrary: i)
  case Nil
  then show ?case by (cases v) (auto split: if_splits)
next
  case (Cons c cs)
  show ?case
  proof (cases "prefix t (c # cs)")
    case True
    then have "prefix t ((c # cs) @ v)" by (metis prefix_prefix)
    then show ?thesis using True Cons.prems by simp
  next
    case False
    then obtain k where k: "indexOf cs t = Some k" "i = Suc k"
      using Cons.prems by auto
    have len: "k + length t \<le> length cs" using indexOf_length [OF k(1)] .
    have "\<not> prefix t ((c # cs) @ v)"
    proof
      assume p: "prefix t ((c # cs) @ v)"
      have "length t \<le> length (c # cs)" using len by simp
      then have "prefix t (c # cs)" using p by (metis prefix_length_prefix prefixI)
      then show False using False by simp
    qed
    then show ?thesis using Cons.IH [OF k(1)] k(2) by simp
  qed
qed

lemma drain_step:
  "indexOf (buffer s) frameEnd = Some i \<Longrightarrow>
   drain parse stringify s
     = drain parse stringify
         (s\<lparr>buffer := drop (i + 2) (buffer s),
            sent := sent s @ frameOutput parse stringify (take i (buffer s)),
            warned := warned s @ frameWarnings parse (take i (buffer s))\<rparr>)"
  by (subst drain.simps) (simp add: handleMessage_frame)

lemma drain_done: "indexOf (buffer s) frameEnd = None \<Longrightarrow> drain parse stringify s = s"
  by (subst drain.simps) simp

lemma drain_drained: "indexOf (buffer (drain parse stringify s)) frameEnd = None"
proof (induction parse stringify s rule: drain.induct)
  case (1 parse stringify s)
  show ?case
  proof (cases "indexOf (buffer s) frameEnd")
    case None
    then show ?thesis by (simp add: drain_done)
  next
    case (Some i)
    then show ?thesis using "1" by (subst drain.simps) simp
  qed
qed

lemma drain_append:
  "drain parse stringify
     ((drain parse stringify s)\<lparr>buffer := buffer (drain parse stringify s) @ v\<rparr>)
   = drain parse stringify (s\<lparr>buffer := buffer s @ v\<rparr>)"
proof (induction parse stringify s rule: drain.induct)
  case (1 parse stringify s)
  show ?case
  proof (cases "indexOf (buffer s) frameEnd")
    case None
    then show ?thesis by (simp add: drain_done)
  next
    case (Some i)
    have len: "i + 2 \<le> length (buffer s)"
      using indexOf_length [OF Some] by (simp add: frameEnd_def)
    have app: "indexOf (buffer (s\<lparr>buffer := buffer s @ v\<rparr>)) frameEnd = Some i"
      using indexOf_append [OF Some] by simp
    let ?s1 = "handleMessage parse stringify (s\<lparr>buffer := drop (i + 2) (buffer s)\<rparr>)
        (take i (buffer s))"
    have d: "drain parse stringify s = drain parse stringify ?s1"
      by (subst drain.simps) (simp add: Some)
    have "drain parse stringify (s\<lparr>buffer := buffer s @ v\<rparr>)
        = drain parse stringify (?s1\<lparr>buffer := buffer ?s1 @ v\<rparr>)"
      using len
      by (subst drain_step [OF app], intro arg_cong [where f = "drain parse stringify"])
         (cases s, simp add: handleMessage_frame)
    then show ?thesis using "1" [OF Some] d by simp
  qed
qed

lemma drain_frames:
  assumes "\<forall>f \<in> set fs. CHR 0x0A \<notin> set f" and "CHR 0x0A \<notin> set tail"
    and "buffer s = concat (map (\<lambda>f. f @ frameEnd) fs) @ tail"
  shows "drain parse stringify s
     = s\<lparr>buffer := tail,
         sent := sent s @ concat (map (frameOutput parse stringify) fs),
         warned := warned s @ concat (map (frameWarnings parse) fs)\<rparr>"
  using assms
proof (induction fs arbitrary: s)
  case Nil
  then show ?case by (simp add: drain_done indexOf_no_line_feed)
next
  case (Cons f fs)
  let ?rest = "concat (map (\<lambda>f. f @ frameEnd) fs) @ tail"
  have b: "buffer s = f @ frameEnd @ ?rest" using Cons.prems(3) by simp
  have i: "indexOf (buffer s) frameEnd = Some (length f)"
    using indexOf_frameEnd [of f ?rest] Cons.prems(1) b by simp
  have tk: "take (length f) (buffer s) = f" by (simp add: b)
  have dr: "drop (length f + 2) (buffer s) = ?rest" by (simp add: b frameEnd_def)
  show ?case
    unfolding drain_step [OF i] tk dr
    using Cons.prems(1,2) by (subst Cons.IH) simp_all
qed

lemma pump_chunks:
  "indexOf (buffer s) frameEnd = None \<Longrightarrow>
   pump parse stringify (map Chunk vs) s
     = (let s' = drain parse stringify (s\<lparr>buffer := buffer s @ concat vs\<rparr>)
        in (handleMessage parse stringify s' (buffer s'), Completed))"
proof (induction vs arbitrary: s)
  case Nil
  then show ?case by (simp add: drain_done)
next
  case (Cons v vs)
  show ?case
  proof (cases "v = []")
    case True
    then show ?thesis using Cons by simp
  next
    case False
    let ?t = "s\<lparr>buffer := buffer s @ v\<rparr>"
    have "pump parse stringify (map Chunk (v # vs)) s
        = pump parse stringify (map Chunk vs) (drain parse stringify ?t)"
      using False by simp
    also have "\<dots> = (let s' = drain parse stringify
            ((drain parse stringify ?t)\<lparr>buffer := buffer (drain parse stringify ?t) @ concat vs\<rparr>)
        in (handleMessage parse stringify s' (buffer s'), Completed))"
      by (rule Cons.IH) (rule drain_drained)
    also have "\<dots> = (let s' = drain parse stringify (s\<lparr>buffer := buffer s @ concat (v # vs)\<rparr>)
        in (handleMessage parse stringify s' (buffer s'), Completed))"
      by (simp add: drain_append)
    finally show ?thesis .
  qed
qed

lemma pump_frames:
  assumes "\<forall>f \<in> set fs. CHR 0x0A \<notin> set f" and "CHR 0x0A \<notin> set tail"
    and "concat chunks = concat (map (\<lambda>f. f @ frameEnd) fs) @ tail"
  shows "pump parse stringify (map Chunk chunks) initialPumpState
     = (\<lparr>buffer = tail,
         sent = concat (map (frameOutput parse stringify) fs) @ frameOutput parse stringify tail,
         warned = concat (map (frameWarnings parse) fs) @ frameWarnings parse tail\<rparr>,
        Completed)"
proof -
  have i: "indexOf (buffer initialPumpState) frameEnd = None"
    by (simp add: initialPumpState_def frameEnd_def)
  have d: "drain parse stringify (initialPumpState\<lparr>buffer := buffer initialPumpState @ concat chunks\<rparr>)
      = \<lparr>buffer = tail, sent = concat (map (frameOutput parse stringify) fs),
         warned = concat (map (frameWarnings parse) fs)\<rparr>"
    by (subst drain_frames [OF assms(1,2)]) (simp_all add: initialPumpState_def assms(3))
  show ?thesis
    unfolding pump_chunks [OF i] d by (simp add: handleMessage_frame)
qed

lemma pump_completes:
  "ReadError \<notin> set reads \<Longrightarrow> snd (pump parse stringify reads s) = Completed"
proof (induction reads arbitrary: s)
  case Nil
  then show ?case by simp
next
  case (Cons r rs)
  then show ?case by (cases r) auto
qed

text \<open>
  Claim C8. On a stream of frames without line feeds, each ended by the delimiter, cut into
  chunks in any way: when one frame is not blank and its payload does not parse, \<open>pump\<close>
  sends nothing for it and logs one warning, the payload; the frames before it and after it
  are sent and warned about as they are without it, in order; and the subscriber completes.
  A stream ends in an error only when a read fails (\<open>pump_completes\<close>).
\<close>

theorem malformed_frame_dropped:
  assumes "\<forall>f \<in> set (before @ [frame] @ after). CHR 0x0A \<notin> set f"
    and "CHR 0x0A \<notin> set tail"
    and "trim frame \<noteq> []" and "parse (ssePayload frame) = None"
    and "concat chunks = concat (map (\<lambda>f. f @ frameEnd) (before @ [frame] @ after)) @ tail"
  shows "pump parse stringify (map Chunk chunks) initialPumpState
     = (\<lparr>buffer = tail,
         sent = concat (map (frameOutput parse stringify) before)
                @ concat (map (frameOutput parse stringify) after)
                @ frameOutput parse stringify tail,
         warned = concat (map (frameWarnings parse) before)
                @ [take 100 (ssePayload frame)]
                @ concat (map (frameWarnings parse) after)
                @ frameWarnings parse tail\<rparr>,
        Completed)"
proof -
  have "frameOutput parse stringify frame = []"
    and "frameWarnings parse frame = [take 100 (ssePayload frame)]"
    using assms(3,4) by (simp_all add: frameOutput_def frameWarnings_def)
  then show ?thesis
    unfolding pump_frames [OF assms(1,2,5)] by simp
qed


theorem malformed_frame_dropped_witness:
  \<open>exParse (ssePayload ''data: [DONE]'') = None
   \<and> pump exParse exStringify
       [Chunk (''data: {"type":"text-delta","delta":"Hi"}'' @ frameEnd @ ''data: [DO''),
        Chunk (''NE]'' @ frameEnd
               @ ''data: {"type":"finish","finishReason":{"unified":"stop"}}'' @ frameEnd)]
       initialPumpState
     = (\<lparr>buffer = [],
         sent = [''{"type":"text-delta","delta":"Hi"}'',
                 ''{"type":"finish","finishReason":"stop"}''],
         warned = [''[DONE]'']\<rparr>, Completed)\<close>
proof -
  have a: \<open>\<forall>f \<in> set ([''data: {"type":"text-delta","delta":"Hi"}''] @ [''data: [DONE]'']
            @ [''data: {"type":"finish","finishReason":{"unified":"stop"}}'']).
          CHR 0x0A \<notin> set f\<close>
    by simp
  have b: "CHR 0x0A \<notin> set []" by simp
  have c: "trim ''data: [DONE]'' \<noteq> []" by (simp add: trim_def isWhiteSpace_def)
  have d: "exParse (ssePayload ''data: [DONE]'') = None"
    by (simp add: ssePayload_def trim_def isWhiteSpace_def exParse_def exFrames_def)
  have e: \<open>concat [''data: {"type":"text-delta","delta":"Hi"}'' @ frameEnd @ ''data: [DO'',
              ''NE]'' @ frameEnd
              @ ''data: {"type":"finish","finishReason":{"unified":"stop"}}'' @ frameEnd]
      = concat (map (\<lambda>f. f @ frameEnd)
          ([''data: {"type":"text-delta","delta":"Hi"}''] @ [''data: [DONE]'']
           @ [''data: {"type":"finish","finishReason":{"unified":"stop"}}''])) @ []\<close>
    by simp
  have f: \<open>frameOutput exParse exStringify ''data: {"type":"text-delta","delta":"Hi"}''
        = [''{"type":"text-delta","delta":"Hi"}'']\<close>
    \<open>frameOutput exParse exStringify
        ''data: {"type":"finish","finishReason":{"unified":"stop"}}''
        = [''{"type":"finish","finishReason":"stop"}'']\<close>
    \<open>frameWarnings exParse ''data: {"type":"text-delta","delta":"Hi"}'' = []\<close>
    \<open>frameWarnings exParse ''data: {"type":"finish","finishReason":{"unified":"stop"}}'' = []\<close>
    "frameOutput exParse exStringify [] = []" "frameWarnings exParse [] = []"
    "take 100 (ssePayload ''data: [DONE]'') = ''[DONE]''"
    by (simp_all add: frameOutput_def frameWarnings_def ssePayload_def trim_def isWhiteSpace_def
        exParse_def exFrames_def transformFinishReason_def quoted_def)
  show ?thesis
    using d malformed_frame_dropped [where parse = exParse and stringify = exStringify,
        OF a b c d e]
    by (simp add: f)
qed

subsection \<open>The finish reason\<close>

lemma finishReason_replaced:
  "map_of ps ''finishReason'' = Some old \<Longrightarrow>
   map_of (AList.update ''finishReason'' v ps) = (map_of ps)(''finishReason'' \<mapsto> v)
   \<and> map fst (AList.update ''finishReason'' v ps) = map fst ps"
  by (auto simp add: update_conv' update_keys dest: map_of_SomeD intro: rev_image_eqI)

text \<open>
  Claim C3, as stated, fails twice. A frame whose type is not \<open>finish\<close> keeps its nested
  finish reason; and in a finish frame whose nested structure has no \<open>unified\<close> entry only
  the first value is looked at, so a string that comes second is not used.
\<close>

theorem finish_frame_counterexample:
  \<open>extractAndTransformJson exParse exStringify
      ''data: {"type":"finish-step","finishReason":{"unified":"stop"}}''
     = (Some ''{"type":"finish-step","finishReason":{"unified":"stop"}}'', [])
   \<and> extractAndTransformJson exParse exStringify
      ''data: {"type":"finish","finishReason":{"raw":null,"reason":"stop"}}''
     = (Some ''{"type":"finish","finishReason":{"raw":null,"reason":"stop"}}'', [])\<close>
  by (simp add: extractAndTransformJson_def ssePayload_def trim_def isWhiteSpace_def exParse_def
      exFrames_def transformFinishReason_def quoted_def)

text \<open>
  Claim C3, amended. For a frame whose payload parses to an object: when its type is
  \<open>finish\<close> and its finish reason is an object with a truthy \<open>unified\<close> entry, as
  \<^verbatim>\<open>{unified: "stop"}\<close> is, the emitted frame is the frame with the finish reason replaced
  by that entry (\<open>finishReason_replaced\<close>: same keys, other entries as they were); when the
  finish reason is a plain string, the frame is emitted unchanged; when the type is
  \<open>finish\<close> and the nested structure has no truthy \<open>unified\<close> entry, its first value
  replaces the finish reason if that value is a string, and otherwise the frame is emitted
  unchanged; a frame of another type is emitted unchanged.
\<close>

theorem finish_frame_normalised:
  assumes "parse (ssePayload sseMessage) = Some (JObj ps)"
  shows "(\<forall>qs u. map_of ps ''type'' = Some (JStr ''finish'')
            \<and> map_of ps ''finishReason'' = Some (JObj qs)
            \<and> map_of qs ''unified'' = Some u \<and> truthy (Some u) \<longrightarrow>
          extractAndTransformJson parse stringify sseMessage
            = (Some (stringify (JObj (AList.update ''finishReason'' u ps))), []))
    \<and> (\<forall>s. map_of ps ''finishReason'' = Some (JStr s) \<longrightarrow>
          extractAndTransformJson parse stringify sseMessage = (Some (stringify (JObj ps)), []))
    \<and> (\<forall>k v qs. map_of ps ''type'' = Some (JStr ''finish'')
            \<and> map_of ps ''finishReason'' = Some (JObj ((k, v) # qs))
            \<and> \<not> truthy (map_of ((k, v) # qs) ''unified'') \<longrightarrow>
          extractAndTransformJson parse stringify sseMessage
            = (Some (stringify
                 (JObj (if isString v then AList.update ''finishReason'' v ps else ps))), []))
    \<and> (map_of ps ''type'' \<noteq> Some (JStr ''finish'') \<longrightarrow>
          extractAndTransformJson parse stringify sseMessage = (Some (stringify (JObj ps)), []))"
  using assms
  by (auto simp add: extractAndTransformJson_def transformFinishReason_def Let_def)

theorem finish_frame_normalised_witness:
  \<open>extractAndTransformJson exParse exStringify
      ''data: {"type":"finish","finishReason":{"unified":"stop"}}''
     = (Some ''{"type":"finish","finishReason":"stop"}'', [])
   \<and> extractAndTransformJson exParse exStringify
      ''data: {"type":"finish","finishReason":"stop"}''
     = (Some ''{"type":"finish","finishReason":"stop"}'', [])
   \<and> extractAndTransformJson exParse exStringify
      ''data: {"type":"finish","finishReason":{"raw":"end_turn"}}''
     = (Some ''{"type":"finish","finishReason":"end_turn"}'', [])
   \<and> extractAndTransformJson exParse exStringify
      ''data: {"type":"text-delta","delta":"Hi"}''
     = (Some ''{"type":"text-delta","delta":"Hi"}'', [])\<close>
proof -
  have p1: \<open>exParse (ssePayload ''data: {"type":"finish","finishReason":{"unified":"stop"}}'')
      = Some (JObj [(''type'', JStr ''finish''),
                    (''finishReason'', JObj [(''unified'', JStr ''stop'')])])\<close>
    by (simp add: ssePayload_def trim_def isWhiteSpace_def exParse_def exFrames_def)
  have p2: \<open>exParse (ssePayload ''data: {"type":"finish","finishReason":"stop"}'')
      = Some (JObj [(''type'', JStr ''finish''), (''finishReason'', JStr ''stop'')])\<close>
    by (simp add: ssePayload_def trim_def isWhiteSpace_def exParse_def exFrames_def)
  have p3: \<open>exParse (ssePayload ''data: {"type":"finish","finishReason":{"raw":"end_turn"}}'')
      = Some (JObj [(''type'', JStr ''finish''),
                    (''finishReason'', JObj [(''raw'', JStr ''end_turn'')])])\<close>
    by (simp add: ssePayload_def trim_def isWhiteSpace_def exParse_def exFrames_def)
  have p4: \<open>exParse (ssePayload ''data: {"type":"text-delta","delta":"Hi"}'')
      = Some (JObj [(''type'', JStr ''text-delta''), (''delta'', JStr ''Hi'')])\<close>
    by (simp add: ssePayload_def trim_def isWhiteSpace_def exParse_def exFrames_def)
  show ?thesis
    using finish_frame_normalised [where parse = exParse and stringify = exStringify, OF p1] finish_frame_normalised [where parse = exParse and stringify = exStringify, OF p2]
      finish_frame_normalised [where parse = exParse and stringify = exStringify, OF p3] finish_frame_normalised [where parse = exParse and stringify = exStringify, OF p4]
    by (simp add: quoted_def)
qed

end
